theory Spec2Isabelle
  imports Main "HOL-Library.AList"
begin

section \<open>Errors\<close>

text \<open>A Go \<open>error\<close> is a value.  \<open>NotFoundError\<close> is the provider client's
  \<open>*serverscom.NotFoundError\<close>, \<open>StatusNotFound\<close> the cluster API's not-found status error,
  \<open>OtherError\<close> any other error of the cluster API or of the provider.  \<open>Errorf f args\<close> is
  \<open>fmt.Errorf(f, args...)\<close>: the format string is kept as written in the source and the
  arguments are kept unformatted; \<open>W e\<close> is an error passed to \<open>%w\<close> (it can be unwrapped),
  \<open>V e\<close> an error passed to \<open>%v\<close>, \<open>L es\<close> the text \<open>joinErrors\<close> builds from a list of errors.\<close>

datatype error =
    NotFoundError string
  | StatusNotFound string
  | OtherError string
  | Errorf string "arg list"
and arg = S string | I int | W error | V error | L "error list"

text \<open>\<open>errors.As(err, &notFoundErr)\<close> with \<open>notFoundErr *serverscom.NotFoundError\<close>: follows the
  chain of wrapped errors.\<close>

fun As_NotFoundError :: "error \<Rightarrow> bool" where
  "As_NotFoundError (NotFoundError m) = True"
| "As_NotFoundError (StatusNotFound m) = False"
| "As_NotFoundError (OtherError m) = False"
| "As_NotFoundError (Errorf f args) =
     list_ex (\<lambda>a. case a of W e \<Rightarrow> As_NotFoundError e | _ \<Rightarrow> False) args"

text \<open>\<open>apierrors.IsNotFound\<close> of the cluster client, likewise through wrapped errors.\<close>

fun IsNotFound :: "error \<Rightarrow> bool" where
  "IsNotFound (NotFoundError m) = False"
| "IsNotFound (StatusNotFound m) = True"
| "IsNotFound (OtherError m) = False"
| "IsNotFound (Errorf f args) =
     list_ex (\<lambda>a. case a of W e \<Rightarrow> IsNotFound e | _ \<Rightarrow> False) args"

text \<open>\<open>utils.IgnoreNotFound\<close>; \<open>None\<close> is the nil error.\<close>

definition IgnoreNotFound :: "error \<Rightarrow> error option" where
  "IgnoreNotFound err = (if As_NotFoundError err then None else Some err)"

text \<open>\<open>client.IgnoreNotFound\<close> of controller-runtime.\<close>

definition client_IgnoreNotFound :: "error \<Rightarrow> error option" where
  "client_IgnoreNotFound err = (if IsNotFound err then None else Some err)"

section \<open>Strings (package strings of the Go library, on byte strings)\<close>

text \<open>A Go string is a sequence of bytes; \<open>len\<close> counts bytes and \<open>s[1:]\<close> drops the
  first byte.  \<open>string\<close> is a list of 8-bit characters, so the two agree.\<close>

definition HasPrefix :: "string \<Rightarrow> string \<Rightarrow> bool" where
  "HasPrefix s prefix = (length s \<ge> length prefix \<and> take (length prefix) s = prefix)"

definition HasSuffix :: "string \<Rightarrow> string \<Rightarrow> bool" where
  "HasSuffix s suffix =
     (length s \<ge> length suffix \<and> drop (length s - length suffix) s = suffix)"

text \<open>\<open>strings.Split(s, sep)\<close> and \<open>strings.Join(elems, sep)\<close> for a separator of one byte
  (the source calls them with the line feed).  \<open>Split\<close> of the empty string is the list with
  one empty string.\<close>

fun Split :: "string \<Rightarrow> char \<Rightarrow> string list" where
  "Split [] sep = [[]]"
| "Split (c # cs) sep =
     (if c = sep then [] # Split cs sep
      else (case Split cs sep of l # ls \<Rightarrow> (c # l) # ls | [] \<Rightarrow> [[c]]))"

fun Join :: "string list \<Rightarrow> char \<Rightarrow> string" where
  "Join [] sep = []"
| "Join [l] sep = l"
| "Join (l # l' # ls) sep = l @ sep # Join (l' # ls) sep"

text \<open>\<open>strings.TrimSpace\<close> removes from both ends the runes that \<open>unicode.IsSpace\<close> accepts,
  first from the left, then from the right.  On the bytes of the string these runes are the
  UTF-8 encodings of U+0009 to U+000D, U+0020, U+0085, U+00A0, U+1680, U+2000 to U+200A,
  U+2028, U+2029, U+202F, U+205F and U+3000; bytes that are not valid UTF-8 decode to U+FFFD,
  which is not a space.\<close>

definition spaceRunes :: "string list" where
  "spaceRunes =
     map (\<lambda>c. [c]) [CHR 0x09, CHR 0x0A, CHR 0x0B, CHR 0x0C, CHR 0x0D, CHR 0x20] @
     [[CHR 0xC2, CHR 0x85], [CHR 0xC2, CHR 0xA0], [CHR 0xE1, CHR 0x9A, CHR 0x80]] @
     map (\<lambda>c. [CHR 0xE2, CHR 0x80, c])
       [CHR 0x80, CHR 0x81, CHR 0x82, CHR 0x83, CHR 0x84, CHR 0x85, CHR 0x86, CHR 0x87,
        CHR 0x88, CHR 0x89, CHR 0x8A, CHR 0xA8, CHR 0xA9, CHR 0xAF] @
     [[CHR 0xE2, CHR 0x81, CHR 0x9F], [CHR 0xE3, CHR 0x80, CHR 0x80]]"

text \<open>The number of bytes of the space at the start, and at the end, of a string; 0 when
  there is none.\<close>

definition spaceAtStart :: "string \<Rightarrow> nat" where
  "spaceAtStart s = (case find (HasPrefix s) spaceRunes of Some w \<Rightarrow> length w | None \<Rightarrow> 0)"

definition spaceAtEnd :: "string \<Rightarrow> nat" where
  "spaceAtEnd s = (case find (HasSuffix s) spaceRunes of Some w \<Rightarrow> length w | None \<Rightarrow> 0)"

function TrimLeftSpace :: "string \<Rightarrow> string" where
  "TrimLeftSpace s =
     (if spaceAtStart s = 0 then s else TrimLeftSpace (drop (spaceAtStart s) s))"
  by pat_completeness auto
termination
proof (relation "measure length")
  show "wf (measure length)" by simp
next
  fix s :: string
  assume "spaceAtStart s \<noteq> 0"
  moreover have "spaceAtStart [] = 0"
    by (simp add: spaceAtStart_def spaceRunes_def HasPrefix_def)
  ultimately have "s \<noteq> []" by auto
  with \<open>spaceAtStart s \<noteq> 0\<close> show "(drop (spaceAtStart s) s, s) \<in> measure length"
    by simp
qed

function TrimRightSpace :: "string \<Rightarrow> string" where
  "TrimRightSpace s =
     (if spaceAtEnd s = 0 then s else TrimRightSpace (take (length s - spaceAtEnd s) s))"
  by pat_completeness auto
termination
proof (relation "measure length")
  show "wf (measure length)" by simp
next
  fix s :: string
  assume "spaceAtEnd s \<noteq> 0"
  moreover have "spaceAtEnd [] = 0"
    by (simp add: spaceAtEnd_def spaceRunes_def HasSuffix_def)
  ultimately have "s \<noteq> []" by auto
  with \<open>spaceAtEnd s \<noteq> 0\<close> show "(take (length s - spaceAtEnd s) s, s) \<in> measure length"
    by simp
qed

declare TrimLeftSpace.simps [simp del] TrimRightSpace.simps [simp del]

definition TrimSpace :: "string \<Rightarrow> string" where
  "TrimSpace s = TrimRightSpace (TrimLeftSpace s)"

section \<open>Cluster resources\<close>

text \<open>The fields of the Gateway API and core resources that the controller reads.  A Go
  pointer field is an \<open>option\<close> (\<open>None\<close> is nil).  A Go map is an association list with
  \<open>map_of\<close> as lookup; where the code ranges over a map, the list order stands for the
  iteration order, which Go leaves unspecified.  A nil map and an empty map behave alike in
  every lookup and range of this code, so both are \<open>[]\<close>.  Port numbers are \<open>int32\<close> in
  the source and are only copied and compared, never computed with, so they are \<open>int\<close>.\<close>

record SecretObjectReference =
  sor_Group :: "string option"
  sor_Kind :: "string option"
  sor_Name :: string
  sor_Namespace :: "string option"

record GatewayTLSConfig =
  tls_Mode :: "string option"
  tls_CertificateRefs :: "SecretObjectReference list"
  tls_Options :: "(string \<times> string) list"

record LabelSelector =
  sel_MatchLabels :: "(string \<times> string) list"

record RouteNamespaces =
  rn_From :: "string option"
  rn_Selector :: "LabelSelector option"

record AllowedRoutes =
  ar_Namespaces :: "RouteNamespaces option"

record Listener =
  l_Name :: string
  l_Hostname :: "string option"
  l_Port :: int
  l_Protocol :: string
  l_TLS :: "GatewayTLSConfig option"
  l_AllowedRoutes :: "AllowedRoutes option"

datatype message = Text string | Sprintf string "arg list" | ErrorText error

record Condition =
  c_Type :: string
  c_Status :: string
  c_Reason :: string
  c_Message :: message
  c_ObservedGeneration :: int

text \<open>\<open>gw_DeletionTimestamp\<close>: \<open>None\<close> is the nil pointer, \<open>Some 0\<close> the zero time.
  \<open>gw_Addresses\<close> holds the (type, value) pairs of the status addresses.\<close>

record Gateway =
  gw_UID :: string
  gw_Name :: string
  gw_Namespace :: string
  gw_Generation :: int
  gw_DeletionTimestamp :: "nat option"
  gw_Finalizers :: "string list"
  gw_GatewayClassName :: string
  gw_Listeners :: "Listener list"
  gw_Conditions :: "Condition list"
  gw_Addresses :: "(string \<times> string) list"

record GatewayClass =
  gc_Name :: string
  gc_ControllerName :: string

record ParentReference =
  pr_Group :: "string option"
  pr_Kind :: "string option"
  pr_Namespace :: "string option"
  pr_Name :: string
  pr_SectionName :: "string option"

record HTTPPathMatch =
  pm_Type :: "string option"
  pm_Value :: "string option"

record HTTPRouteMatch =
  m_Path :: "HTTPPathMatch option"

record BackendObjectReference =
  bor_Group :: "string option"
  bor_Name :: string
  bor_Namespace :: "string option"
  bor_Port :: "int option"

text \<open>\<open>rule_Filters\<close> is the number of filters: the code only tests it for a log line.\<close>

record HTTPRouteRule =
  rule_Matches :: "HTTPRouteMatch list"
  rule_Filters :: nat
  rule_BackendRefs :: "BackendObjectReference list"

record HTTPRoute =
  rt_Namespace :: string
  rt_Name :: string
  rt_ParentRefs :: "ParentReference list"
  rt_Hostnames :: "string list"
  rt_Rules :: "HTTPRouteRule list"

record ServicePort =
  sp_Port :: int
  sp_NodePort :: int

record Service =
  svc_Namespace :: string
  svc_Name :: string
  svc_Ports :: "ServicePort list"

record NodeAddress =
  na_Type :: string
  na_Address :: string

record Node =
  node_Addresses :: "NodeAddress list"

record Secret =
  sec_Namespace :: string
  sec_Name :: string
  sec_UID :: string
  sec_Data :: "(string \<times> string) list"

text \<open>Constants of the Gateway API and of the core API that the code refers to by name.\<close>

definition GroupName :: string where "GroupName = ''gateway.networking.k8s.io''"
definition HTTPProtocolType :: string where "HTTPProtocolType = ''HTTP''"
definition HTTPSProtocolType :: string where "HTTPSProtocolType = ''HTTPS''"
definition TLSModeTerminate :: string where "TLSModeTerminate = ''Terminate''"
definition NamespacesFromSelector :: string where "NamespacesFromSelector = ''Selector''"
definition PathMatchPathPrefix :: string where "PathMatchPathPrefix = ''PathPrefix''"
definition NodeExternalIP :: string where "NodeExternalIP = ''ExternalIP''"
definition NodeInternalIP :: string where "NodeInternalIP = ''InternalIP''"
definition TLSCertKey :: string where "TLSCertKey = ''tls.crt''"
definition TLSPrivateKeyKey :: string where "TLSPrivateKeyKey = ''tls.key''"

section \<open>Configuration constants (package config)\<close>

definition GW_DOMAIN :: string where "GW_DOMAIN = ''k8s.srvrscloud.com''"
definition GW_FINALIZER :: string where "GW_FINALIZER = GW_DOMAIN @ ''/gateway-cleanup''"
definition GW_LABEL_ID :: string where "GW_LABEL_ID = GW_DOMAIN @ ''/api-gateway-id''"
definition SECRET_LABEL_ID :: string where "SECRET_LABEL_ID = GW_DOMAIN @ ''/api-secret-id''"
definition TLS_EXTERNAL_ID_KEY :: string where "TLS_EXTERNAL_ID_KEY = ''sc-certmgr-cert-id''"
definition LB_ACTIVE_STATUS :: string where "LB_ACTIVE_STATUS = ''active''"

section \<open>Derived per-pass data (internal/types/gateway.go)\<close>

record PathInfo =
  pi_Path :: string
  pi_Service :: Service
  pi_NodePort :: int
  pi_NodeIps :: "string list"

record VHostInfo =
  vh_Host :: string
  vh_SSL :: bool
  vh_Ports :: "int list"
  vh_Paths :: "PathInfo list"

record GatewayInfo =
  gi_UID :: string
  gi_Name :: string
  gi_NS :: string
  gi_VHosts :: "(string \<times> VHostInfo) list"

record TLSConfigInfo =
  ti_ExternalID :: string
  ti_Secret :: "Secret option"

record ListenerInfo =
  li_Name :: string
  li_Hostname :: string
  li_Protocol :: string
  li_Port :: int
  li_AllowedFrom :: string
  li_Selector :: "(string \<times> string) list"

section \<open>The cluster client\<close>

text \<open>The controller-runtime client, as the answers it gives during one pass: the result
  of each List and Get (an error, or the objects), and of each Patch.  \<open>getNamespace\<close>
  answers with the labels of the namespace.\<close>

record Client =
  listNodes :: "error + Node list"
  listHTTPRoutes :: "error + HTTPRoute list"
  getNamespace :: "string \<Rightarrow> error + (string \<times> string) list"
  getService :: "string \<Rightarrow> string \<Rightarrow> error + Service"
  getSecret :: "string \<Rightarrow> string \<Rightarrow> error + Secret"
  getGateway :: "string \<Rightarrow> string \<Rightarrow> error + Gateway"
  getGatewayClass :: "string \<Rightarrow> error + GatewayClass"
  patch :: "Gateway \<Rightarrow> error option"
  statusPatch :: "Gateway \<Rightarrow> error option"

section \<open>Matching primitives (internal/gateway/controller/helpers.go)\<close>

text \<open>\<open>isRouteAttachedToGateway\<close>: the loop over the parent references.\<close>

fun parentRefsAttach :: "ParentReference list \<Rightarrow> HTTPRoute \<Rightarrow> Gateway \<Rightarrow> bool" where
  "parentRefsAttach [] route gw = False"
| "parentRefsAttach (parent # rest) route gw =
     (if (case pr_Kind parent of Some k \<Rightarrow> k \<noteq> ''Gateway'' | None \<Rightarrow> False)
        then parentRefsAttach rest route gw
      else if (case pr_Group parent of Some g \<Rightarrow> g \<noteq> GroupName | None \<Rightarrow> False)
        then parentRefsAttach rest route gw
      else if pr_Name parent \<noteq> gw_Name gw
        then parentRefsAttach rest route gw
      else
        (let ns = (case pr_Namespace parent of Some n \<Rightarrow> n | None \<Rightarrow> rt_Namespace route)
         in if ns = gw_Namespace gw then True else parentRefsAttach rest route gw))"

definition isRouteAttachedToGateway :: "HTTPRoute \<Rightarrow> Gateway \<Rightarrow> bool" where
  "isRouteAttachedToGateway route gw = parentRefsAttach (rt_ParentRefs route) route gw"

text \<open>\<open>nsLabels[k]\<close> on a Go map gives the empty string for a missing key.\<close>

definition labelOf :: "(string \<times> string) list \<Rightarrow> string \<Rightarrow> string" where
  "labelOf nsLabels k = (case map_of nsLabels k of Some v \<Rightarrow> v | None \<Rightarrow> [])"

fun selectorMatches :: "(string \<times> string) list \<Rightarrow> (string \<times> string) list \<Rightarrow> bool" where
  "selectorMatches [] nsLabels = True"
| "selectorMatches ((k, v) # rest) nsLabels =
     (if labelOf nsLabels k \<noteq> v then False else selectorMatches rest nsLabels)"

definition isRouteNamespaceAllowed ::
  "ListenerInfo \<Rightarrow> string \<Rightarrow> string \<Rightarrow> (string \<times> string) list \<Rightarrow> bool" where
  "isRouteNamespaceAllowed listener listenerNS routeNS nsLabels =
     (if li_AllowedFrom listener = ''All'' then True
      else if li_AllowedFrom listener = ''Same'' then listenerNS = routeNS
      else if li_AllowedFrom listener = ''Selector''
        then selectorMatches (li_Selector listener) nsLabels
      else listenerNS = routeNS)"

definition errTLSMode :: string where
  "errTLSMode = ''hostname=%q: TLS mode must be '' @ [CHR 0x27] @ ''Terminate'' @ [CHR 0x27]"

definition validateHTTPSListener :: "Listener \<Rightarrow> error option" where
  "validateHTTPSListener listener =
     (if l_Protocol listener \<noteq> HTTPSProtocolType then None
      else case l_Hostname listener of
        None \<Rightarrow> Some (Errorf ''hostname must be specified for HTTPS protocol'' [])
      | Some hostname \<Rightarrow>
          if hostname = [] then Some (Errorf ''hostname must be specified for HTTPS protocol'' [])
          else (case l_TLS listener of
            None \<Rightarrow> Some (Errorf ''hostname=%q: missing TLS config'' [S hostname])
          | Some tls \<Rightarrow>
              (case tls_Mode tls of
                 None \<Rightarrow> Some (Errorf errTLSMode [S hostname])
               | Some mode \<Rightarrow>
                   if mode \<noteq> TLSModeTerminate then Some (Errorf errTLSMode [S hostname])
                   else None)))"

definition hostMatches :: "string \<Rightarrow> string \<Rightarrow> bool" where
  "hostMatches listenerHost routeHost =
     (if listenerHost = [] then True
      else if listenerHost = routeHost then True
      else if HasPrefix listenerHost ''*.'' \<and> length listenerHost > 2 then
        (let suffix = drop 1 listenerHost in HasSuffix routeHost suffix)
      else False)"

section \<open>Topology builder (internal/gateway/controller/gateway.go)\<close>

subsection \<open>getNodesIpList\<close>

text \<open>The inner loop over one node's addresses: the first address whose type is
  ExternalIP or InternalIP is taken, and the loop breaks.\<close>

fun nodeAddress :: "NodeAddress list \<Rightarrow> string option" where
  "nodeAddress [] = None"
| "nodeAddress (addr # rest) =
     (if na_Type addr = NodeExternalIP \<or> na_Type addr = NodeInternalIP
      then Some (na_Address addr)
      else nodeAddress rest)"

text \<open>The outer loop over the nodes, appending to \<open>nodeIPs\<close>.\<close>

fun nodesLoop :: "Node list \<Rightarrow> string list \<Rightarrow> string list" where
  "nodesLoop [] nodeIPs = nodeIPs"
| "nodesLoop (node # rest) nodeIPs =
     (case nodeAddress (node_Addresses node) of
        Some a \<Rightarrow> nodesLoop rest (nodeIPs @ [a])
      | None \<Rightarrow> nodesLoop rest nodeIPs)"

definition getNodesIpList :: "Client \<Rightarrow> error + string list" where
  "getNodesIpList r =
     (case listNodes r of
        Inl err \<Rightarrow> Inl err
      | Inr nodes \<Rightarrow> Inr (nodesLoop nodes []))"

definition getNamespaceLabels :: "Client \<Rightarrow> string \<Rightarrow> error + (string \<times> string) list" where
  "getNamespaceLabels r ns =
     (case getNamespace r ns of
        Inl err \<Rightarrow> Inl err
      | Inr labels \<Rightarrow> Inr labels)"

subsection \<open>buildGatewayInfo: the listeners\<close>

definition listenerInfo :: "Listener \<Rightarrow> ListenerInfo" where
  "listenerInfo l =
     (let hostname = (case l_Hostname l of Some h \<Rightarrow> h | None \<Rightarrow> []);
          (allowedFrom, selector) =
            (case l_AllowedRoutes l of
               None \<Rightarrow> (''Same'', [])
             | Some ar \<Rightarrow>
                 (case ar_Namespaces ar of
                    None \<Rightarrow> (''Same'', [])
                  | Some ns \<Rightarrow>
                      (case rn_From ns of
                         None \<Rightarrow> (''Same'', [])
                       | Some from \<Rightarrow>
                           (from,
                            if from = NamespacesFromSelector
                            then (case rn_Selector ns of
                                    Some sel \<Rightarrow> sel_MatchLabels sel
                                  | None \<Rightarrow> [])
                            else []))))
      in \<lparr> li_Name = l_Name l, li_Hostname = hostname, li_Protocol = l_Protocol l,
           li_Port = l_Port l, li_AllowedFrom = allowedFrom, li_Selector = selector \<rparr>)"

text \<open>The loop over \<open>gw.Spec.Listeners\<close>, with the set \<open>seenListeners\<close> and the list
  \<open>listeners\<close> built so far.\<close>

fun listenersLoop ::
  "Listener list \<Rightarrow> string set \<Rightarrow> ListenerInfo list \<Rightarrow> error + ListenerInfo list" where
  "listenersLoop [] seenListeners listeners = Inr listeners"
| "listenersLoop (l # rest) seenListeners listeners =
     (if l_Name l \<in> seenListeners
      then Inl (Errorf ''duplicate listener name: %q'' [S (l_Name l)])
      else listenersLoop rest (insert (l_Name l) seenListeners) (listeners @ [listenerInfo l]))"

subsection \<open>buildGatewayInfo: one rule of a route\<close>

text \<open>The loop over \<open>svc.Spec.Ports\<close> looking for \<open>wantPort\<close>.\<close>

fun findNodePort :: "Service \<Rightarrow> ServicePort list \<Rightarrow> int \<Rightarrow> error + int" where
  "findNodePort svc [] wantPort =
     Inl (Errorf ''service %s: port %d not found'' [S (svc_Name svc), I wantPort])"
| "findNodePort svc (p # rest) wantPort =
     (if sp_Port p = wantPort then
        (if sp_NodePort p = 0
         then Inl (Errorf ''service %s has no NodePort (only NodePort/LoadBalancer supported)''
                     [S (svc_Name svc)])
         else Inr (sp_NodePort p))
      else findNodePort svc rest wantPort)"

text \<open>The loop over \<open>rule.Matches\<close> collecting the prefix paths.\<close>

fun matchPaths :: "HTTPRouteMatch list \<Rightarrow> string list \<Rightarrow> string list" where
  "matchPaths [] paths = paths"
| "matchPaths (m # rest) paths =
     (case m_Path m of
        None \<Rightarrow> matchPaths rest paths
      | Some p \<Rightarrow>
          (case pm_Value p of
             None \<Rightarrow> matchPaths rest paths
           | Some v \<Rightarrow>
               (let pathType = (case pm_Type p of Some t \<Rightarrow> t | None \<Rightarrow> PathMatchPathPrefix)
                in if pathType \<noteq> PathMatchPathPrefix then matchPaths rest paths
                   else matchPaths rest (paths @ [v]))))"

text \<open>The body of the loop over \<open>route.Spec.Rules\<close>; \<open>vh\<close> is the virtual host the paths
  are appended to.\<close>

definition ruleStep ::
  "Client \<Rightarrow> HTTPRoute \<Rightarrow> string list \<Rightarrow> HTTPRouteRule \<Rightarrow> VHostInfo \<Rightarrow> error + VHostInfo" where
  "ruleStep r route nodeIps rule vh =
     (case rule_BackendRefs rule of
        [] \<Rightarrow> Inr vh
      | backend # _ \<Rightarrow>
          (case (case bor_Group backend of Some g \<Rightarrow> if g \<noteq> [] then Some g else None
                                         | None \<Rightarrow> None) of
             Some g \<Rightarrow> Inl (Errorf ''non-core backend groups not supported: %v'' [S g])
           | None \<Rightarrow>
               (let svcName = bor_Name backend;
                    ns = (case bor_Namespace backend of Some n \<Rightarrow> n | None \<Rightarrow> rt_Namespace route)
                in case getService r ns svcName of
                     Inl err \<Rightarrow>
                       Inl (Errorf ''failed to get service %s/%s: %w'' [S ns, S svcName, W err])
                   | Inr svc \<Rightarrow>
                       (let wantPort =
                              (case bor_Port backend of
                                 Some p \<Rightarrow> p
                               | None \<Rightarrow> (case svc_Ports svc of sp # _ \<Rightarrow> sp_Port sp | [] \<Rightarrow> 0))
                        in case findNodePort svc (svc_Ports svc) wantPort of
                             Inl err \<Rightarrow> Inl err
                           | Inr nodePort \<Rightarrow>
                               (let paths = (if rule_Matches rule = [] then [''/'']
                                             else matchPaths (rule_Matches rule) [])
                                in Inr (vh \<lparr> vh_Paths := vh_Paths vh @
                                          map (\<lambda>path. \<lparr> pi_Path = path, pi_Service = svc,
                                                         pi_NodePort = nodePort,
                                                         pi_NodeIps = nodeIps \<rparr>) paths \<rparr>))))))"

fun rulesLoop ::
  "Client \<Rightarrow> HTTPRoute \<Rightarrow> string list \<Rightarrow> HTTPRouteRule list \<Rightarrow> VHostInfo \<Rightarrow> error + VHostInfo"
  where
  "rulesLoop r route nodeIps [] vh = Inr vh"
| "rulesLoop r route nodeIps (rule # rest) vh =
     (case ruleStep r route nodeIps rule vh of
        Inl err \<Rightarrow> Inl err
      | Inr vh' \<Rightarrow> rulesLoop r route nodeIps rest vh')"

subsection \<open>buildGatewayInfo: one hostname of a route\<close>

text \<open>The loop over \<open>listeners\<close> that builds \<open>matchedListeners\<close>.\<close>

fun matchListeners ::
  "ListenerInfo list \<Rightarrow> string list \<Rightarrow> Gateway \<Rightarrow> HTTPRoute \<Rightarrow> (string \<times> string) list \<Rightarrow>
   string \<Rightarrow> ListenerInfo list \<Rightarrow> ListenerInfo list" where
  "matchListeners [] sectionNames gw route nsLabels hostname matched = matched"
| "matchListeners (l # rest) sectionNames gw route nsLabels hostname matched =
     (if length sectionNames > 0 \<and> li_Name l \<notin> set sectionNames
        then matchListeners rest sectionNames gw route nsLabels hostname matched
      else if \<not> isRouteNamespaceAllowed l (gw_Namespace gw) (rt_Namespace route) nsLabels
        then matchListeners rest sectionNames gw route nsLabels hostname matched
      else if hostMatches (li_Hostname l) hostname
        then matchListeners rest sectionNames gw route nsLabels hostname (matched @ [l])
      else matchListeners rest sectionNames gw route nsLabels hostname matched)"

text \<open>The first loop over \<open>matchedListeners\<close>: \<open>ssl\<close> becomes true at an HTTPS listener.\<close>

fun sslLoop :: "ListenerInfo list \<Rightarrow> bool \<Rightarrow> bool" where
  "sslLoop [] ssl = ssl"
| "sslLoop (l # rest) ssl = sslLoop rest (if li_Protocol l = ''HTTPS'' then True else ssl)"

text \<open>The second loop over \<open>matchedListeners\<close>, collecting \<open>ports\<close>.\<close>

fun portsLoop :: "ListenerInfo list \<Rightarrow> bool \<Rightarrow> int list \<Rightarrow> int list" where
  "portsLoop [] ssl ports = ports"
| "portsLoop (l # rest) ssl ports =
     (let ports1 = (if ssl \<and> li_Protocol l = ''HTTPS'' then ports @ [li_Port l] else ports);
          ports2 = (if \<not> ssl \<and> li_Protocol l = ''HTTP'' then ports1 @ [li_Port l] else ports1)
      in portsLoop rest ssl ports2)"

text \<open>The merge into an existing virtual host: the set \<open>existing\<close> is taken from the ports
  the virtual host has before the loop, and is not extended inside it.\<close>

fun mergePorts :: "int list \<Rightarrow> int set \<Rightarrow> int list \<Rightarrow> int list" where
  "mergePorts [] existing vhPorts = vhPorts"
| "mergePorts (p # rest) existing vhPorts =
     (if p \<notin> existing then mergePorts rest existing (vhPorts @ [p])
      else mergePorts rest existing vhPorts)"

text \<open>The state of the loops over routes and hostnames: \<open>vhostMap\<close> and \<open>routeForDomain\<close>.
  The source keeps pointers to the virtual hosts in \<open>vhostMap\<close> and updates them in place;
  here the updated virtual host is stored back under its hostname.\<close>

type_synonym build_state = "(string \<times> VHostInfo) list \<times> (string \<times> string) list"

definition hostnameStep ::
  "Client \<Rightarrow> Gateway \<Rightarrow> string list \<Rightarrow> ListenerInfo list \<Rightarrow> HTTPRoute \<Rightarrow> string list \<Rightarrow>
   (string \<times> string) list \<Rightarrow> string \<Rightarrow> build_state \<Rightarrow> error + build_state" where
  "hostnameStep r gw nodeIps listeners route sectionNames nsLabels hostname st =
     (let (vhostMap, routeForDomain) = st in
      case (case map_of routeForDomain hostname of
              Some prev \<Rightarrow> if prev \<noteq> rt_Name route then Some prev else None
            | None \<Rightarrow> None) of
        Some prev \<Rightarrow>
          Inl (Errorf ''domain %q used in several HTTPRoute: %q and %q''
                 [S hostname, S prev, S (rt_Name route)])
      | None \<Rightarrow>
          (let routeForDomain' = AList.update hostname (rt_Name route) routeForDomain;
               matchedListeners =
                 matchListeners listeners sectionNames gw route nsLabels hostname []
           in if length matchedListeners = 0 then Inr (vhostMap, routeForDomain')
              else
                (let ssl = sslLoop matchedListeners False;
                     ports = portsLoop matchedListeners ssl [];
                     vh = (case map_of vhostMap hostname of
                             None \<Rightarrow>
                               \<lparr> vh_Host = hostname, vh_SSL = ssl, vh_Ports = ports,
                                 vh_Paths = [] \<rparr>
                           | Some vh0 \<Rightarrow>
                               vh0 \<lparr> vh_Ports := mergePorts ports (set (vh_Ports vh0)) (vh_Ports vh0),
                                     vh_SSL := (if ssl then True else vh_SSL vh0) \<rparr>)
                 in case rulesLoop r route nodeIps (rt_Rules route) vh of
                      Inl err \<Rightarrow> Inl err
                    | Inr vh' \<Rightarrow> Inr (AList.update hostname vh' vhostMap, routeForDomain'))))"

fun hostnamesLoop ::
  "Client \<Rightarrow> Gateway \<Rightarrow> string list \<Rightarrow> ListenerInfo list \<Rightarrow> HTTPRoute \<Rightarrow> string list \<Rightarrow>
   (string \<times> string) list \<Rightarrow> string list \<Rightarrow> build_state \<Rightarrow> error + build_state" where
  "hostnamesLoop r gw nodeIps listeners route sectionNames nsLabels [] st = Inr st"
| "hostnamesLoop r gw nodeIps listeners route sectionNames nsLabels (hostname # rest) st =
     (case hostnameStep r gw nodeIps listeners route sectionNames nsLabels hostname st of
        Inl err \<Rightarrow> Inl err
      | Inr st' \<Rightarrow> hostnamesLoop r gw nodeIps listeners route sectionNames nsLabels rest st')"

subsection \<open>buildGatewayInfo: one route\<close>

text \<open>The loop that checks \<open>route.Spec.Hostnames\<close> and copies them to \<open>routeHostnames\<close>.\<close>

fun checkHostnames :: "HTTPRoute \<Rightarrow> string list \<Rightarrow> string list \<Rightarrow> error + string list" where
  "checkHostnames route [] routeHostnames = Inr routeHostnames"
| "checkHostnames route (host # rest) routeHostnames =
     (if host = [] \<or> CHR ''*'' \<in> set host
      then Inl (Errorf
             ''HTTPRoute %s/%s: Invalid hostname %q (must be concrete, no wildcards, no empty)''
             [S (rt_Namespace route), S (rt_Name route), S host])
      else checkHostnames route rest (routeHostnames @ [host]))"

text \<open>The loop that collects the section names of the parent references (a set in the
  source; only membership and emptiness are used).\<close>

fun collectSectionNames :: "ParentReference list \<Rightarrow> string list \<Rightarrow> string list" where
  "collectSectionNames [] sectionNames = sectionNames"
| "collectSectionNames (pr # rest) sectionNames =
     (case pr_SectionName pr of
        Some sn \<Rightarrow> collectSectionNames rest (sectionNames @ [sn])
      | None \<Rightarrow> collectSectionNames rest sectionNames)"

definition routeStep ::
  "Client \<Rightarrow> Gateway \<Rightarrow> string list \<Rightarrow> ListenerInfo list \<Rightarrow> HTTPRoute \<Rightarrow> build_state \<Rightarrow>
   error + build_state" where
  "routeStep r gw nodeIps listeners route st =
     (if \<not> isRouteAttachedToGateway route gw then Inr st
      else if length (rt_Hostnames route) = 0
        then Inl (Errorf
               ''HTTPRoute %s/%s: Hostname must be specified (no wildcards, no empty values supported)''
               [S (rt_Namespace route), S (rt_Name route)])
      else case checkHostnames route (rt_Hostnames route) [] of
        Inl err \<Rightarrow> Inl err
      | Inr routeHostnames \<Rightarrow>
          (let sectionNames = collectSectionNames (rt_ParentRefs route) []
           in case getNamespaceLabels r (rt_Namespace route) of
                Inl err \<Rightarrow>
                  Inl (Errorf ''cannot get labels for namespace %q: %w''
                         [S (rt_Namespace route), W err])
              | Inr nsLabels \<Rightarrow>
                  hostnamesLoop r gw nodeIps listeners route sectionNames nsLabels
                    routeHostnames st))"

fun routesLoop ::
  "Client \<Rightarrow> Gateway \<Rightarrow> string list \<Rightarrow> ListenerInfo list \<Rightarrow> HTTPRoute list \<Rightarrow> build_state \<Rightarrow>
   error + build_state" where
  "routesLoop r gw nodeIps listeners [] st = Inr st"
| "routesLoop r gw nodeIps listeners (route # rest) st =
     (case routeStep r gw nodeIps listeners route st of
        Inl err \<Rightarrow> Inl err
      | Inr st' \<Rightarrow> routesLoop r gw nodeIps listeners rest st')"

subsection \<open>buildGatewayInfo\<close>

definition buildGatewayInfo :: "Client \<Rightarrow> Gateway \<Rightarrow> error + GatewayInfo" where
  "buildGatewayInfo r gw =
     (case getNodesIpList r of
        Inl err \<Rightarrow> Inl (Errorf ''failed to get nodes IPs: %w'' [W err])
      | Inr nodeIps \<Rightarrow>
          (case listenersLoop (gw_Listeners gw) {} [] of
             Inl err \<Rightarrow> Inl err
           | Inr listeners \<Rightarrow>
               (case listHTTPRoutes r of
                  Inl err \<Rightarrow> Inl (Errorf ''failed to list HTTPRoutes: %w'' [W err])
                | Inr httpRoutes \<Rightarrow>
                    (case routesLoop r gw nodeIps listeners httpRoutes ([], []) of
                       Inl err \<Rightarrow> Inl err
                     | Inr (vhostMap, routeForDomain) \<Rightarrow>
                         Inr \<lparr> gi_UID = gw_UID gw, gi_Name = gw_Name gw,
                               gi_NS = gw_Namespace gw, gi_VHosts = vhostMap \<rparr>))))"

section \<open>TLS resolver (buildTLSInfo in internal/gateway/controller/gateway.go)\<close>

text \<open>The loop over \<open>listener.TLS.CertificateRefs\<close>: \<open>secretName\<close> starts empty and is set
  from the first reference whose kind is nil or Secret and whose group is nil or empty.\<close>

fun firstSecretName :: "SecretObjectReference list \<Rightarrow> string" where
  "firstSecretName [] = []"
| "firstSecretName (ref # rest) =
     (if (case sor_Kind ref of None \<Rightarrow> True | Some k \<Rightarrow> k = ''Secret'') \<and>
         (case sor_Group ref of None \<Rightarrow> True | Some g \<Rightarrow> g = [])
      then sor_Name ref
      else firstSecretName rest)"

definition errValidation :: string where
  "errValidation = ''validation errors:'' @ [CHR 0x0A] @ ''%s''"

text \<open>A nil dereference cannot happen after \<open>validateHTTPSListener\<close> has accepted an HTTPS
  listener (hostname and TLS block are then present); the branches stand for the panic.\<close>

definition nilDereference :: error where
  "nilDereference = OtherError ''panic: invalid memory address or nil pointer dereference''"

text \<open>The loop over \<open>gw.Spec.Listeners\<close> with the index \<open>i\<close>, the map \<open>result\<close> and the
  accumulated \<open>errs\<close>.  \<open>Inl\<close> is the early return at a failed Get of the Secret.\<close>

fun tlsListenersLoop ::
  "Client \<Rightarrow> Gateway \<Rightarrow> Listener list \<Rightarrow> int \<Rightarrow> (string \<times> TLSConfigInfo) list \<Rightarrow> error list \<Rightarrow>
   error + ((string \<times> TLSConfigInfo) list \<times> error list)" where
  "tlsListenersLoop r gw [] i result errs = Inr (result, errs)"
| "tlsListenersLoop r gw (listener # rest) i result errs =
     (if l_Protocol listener \<noteq> HTTPSProtocolType
        then tlsListenersLoop r gw rest (i + 1) result errs
      else case validateHTTPSListener listener of
        Some err \<Rightarrow>
          tlsListenersLoop r gw rest (i + 1) result
            (errs @ [Errorf ''listener[%d]: %w'' [I i, W err]])
      | None \<Rightarrow>
          (case (l_Hostname listener, l_TLS listener) of
             (Some hostname, Some tls) \<Rightarrow>
               (case (case map_of (tls_Options tls) TLS_EXTERNAL_ID_KEY of
                        Some ident \<Rightarrow> if ident \<noteq> [] then Some ident else None
                      | None \<Rightarrow> None) of
                  Some ident \<Rightarrow>
                    tlsListenersLoop r gw rest (i + 1)
                      (AList.update hostname \<lparr> ti_ExternalID = ident, ti_Secret = None \<rparr> result)
                      errs
                | None \<Rightarrow>
                    (let secretNS = gw_Namespace gw;
                         secretName = firstSecretName (tls_CertificateRefs tls)
                     in if secretName = []
                        then tlsListenersLoop r gw rest (i + 1) result
                               (errs @ [Errorf ''listener[%d]: no valid refs found'' [I i]])
                        else case getSecret r secretNS secretName of
                               Inl err \<Rightarrow>
                                 Inl (Errorf ''can't get secret %s/%s: %v''
                                        [S secretNS, S secretName, V err])
                             | Inr secret \<Rightarrow>
                                 tlsListenersLoop r gw rest (i + 1)
                                   (AList.update hostname
                                      \<lparr> ti_ExternalID = [], ti_Secret = Some secret \<rparr> result)
                                   errs))
           | _ \<Rightarrow> Inl nilDereference))"

definition buildTLSInfo :: "Client \<Rightarrow> Gateway \<Rightarrow> error + (string \<times> TLSConfigInfo) list" where
  "buildTLSInfo r gw =
     (case tlsListenersLoop r gw (gw_Listeners gw) 0 [] [] of
        Inl err \<Rightarrow> Inl err
      | Inr (result, errs) \<Rightarrow>
          if length errs > 0 then Inl (Errorf errValidation [L errs])
          else Inr result)"

section \<open>Secret event mapper (gatewayReferencesSecret in handlers.go)\<close>




section \<open>Provider load balancers (internal/service/lb)\<close>

subsection \<open>Formatting and parsing of integers\<close>

text \<open>The decimal digit of a number below ten, and the number a decimal digit stands for
  (its position among the digits).\<close>

definition digitChar :: "nat \<Rightarrow> char" where
  "digitChar d = ''0123456789'' ! d"

definition digitVal :: "char \<Rightarrow> nat" where
  "digitVal c = length (takeWhile (\<lambda>d. d \<noteq> c) ''0123456789'')"

function decimal :: "nat \<Rightarrow> string" where
  "decimal n = (if n < 10 then [digitChar n]
                else decimal (n div 10) @ [digitChar (n mod 10)])"
  by pat_completeness auto
termination
  by (relation "measure (\<lambda>n. n)") auto

declare decimal.simps [simp del]

text \<open>The verb \<open>%d\<close> of \<open>fmt.Sprintf\<close> on an integer.\<close>

definition itoa :: "int \<Rightarrow> string" where
  "itoa i = (if i < 0 then CHR ''-'' # decimal (nat (- i)) else decimal (nat i))"

text \<open>The conversion \<open>int32(x)\<close> of a Go \<open>int\<close>: the low 32 bits, read as signed.\<close>

definition to_int32 :: "int \<Rightarrow> int" where
  "to_int32 x = (x + 2 ^ 31) mod 2 ^ 32 - 2 ^ 31"

definition isDigit :: "char \<Rightarrow> bool" where
  "isDigit c = (c \<in> set ''0123456789'')"

fun digitsValue :: "string \<Rightarrow> nat \<Rightarrow> nat" where
  "digitsValue [] n = n"
| "digitsValue (c # rest) n = digitsValue rest (n * 10 + digitVal c)"

text \<open>\<open>strconv.Atoi\<close> on a 64-bit platform: an optional sign and at least one decimal
  digit, and a value that fits \<open>int\<close>.\<close>

definition Atoi :: "string \<Rightarrow> error + int" where
  "Atoi s =
     (let (neg, ds) = (case s of
                         [] \<Rightarrow> (False, [])
                       | c # rest \<Rightarrow> if c = CHR ''-'' then (True, rest)
                                     else if c = CHR ''+'' then (False, rest)
                                     else (False, s))
      in if ds = [] \<or> \<not> list_all isDigit ds
         then Inl (Errorf ''strconv.Atoi: parsing %q: invalid syntax'' [S s])
         else (let v = (if neg then - int (digitsValue ds 0) else int (digitsValue ds 0))
               in if v < - (2 ^ 63) \<or> v > 2 ^ 63 - 1
                  then Inl (Errorf ''strconv.Atoi: parsing %q: value out of range'' [S s])
                  else Inr v))"

subsection \<open>Provider data\<close>

text \<open>The fields of the provider client's types that this repository sets or reads.\<close>

record LoadBalancer =
  lb_ID :: string
  lb_Status :: string

record L7LoadBalancer =
  l7_ID :: string
  l7_Status :: string
  l7_ExternalAddresses :: "string list"

record L7UpstreamInput =
  up_IP :: string
  up_Port :: int
  up_Weight :: int

record L7UpstreamZoneInput =
  uz_ID :: string
  uz_Upstreams :: "L7UpstreamInput list"

record L7LocationZoneInput =
  lz_Location :: string
  lz_UpstreamID :: string

record L7VHostZoneInput =
  vz_ID :: string
  vz_Domains :: "string list"
  vz_SSLCertID :: string
  vz_SSL :: bool
  vz_Ports :: "int list"
  vz_LocationZones :: "L7LocationZoneInput list"

record L7LoadBalancerCreateInput =
  ci_Name :: string
  ci_LocationID :: int
  ci_StoreLogs :: "bool option"
  ci_StoreLogsRegionID :: "int option"
  ci_Geoip :: "bool option"
  ci_UpstreamZones :: "L7UpstreamZoneInput list"
  ci_VHostZones :: "L7VHostZoneInput list"
  ci_ClusterID :: "string option"
  ci_Labels :: "(string \<times> string) list"

record L7LoadBalancerUpdateInput =
  ui_Name :: string
  ui_StoreLogs :: "bool option"
  ui_StoreLogsRegionID :: "int option"
  ui_Geoip :: "bool option"
  ui_VHostZones :: "L7VHostZoneInput list"
  ui_UpstreamZones :: "L7UpstreamZoneInput list"
  ui_ClusterID :: "string option"
  ui_SharedCluster :: "bool option"

text \<open>The provider's load balancer service, as the answers it gives: \<open>CollectLoadBalancers\<close> takes the
  parameters \<open>type\<close> and \<open>label_selector\<close> of the collection.\<close>

record LoadBalancersService =
  CollectLoadBalancers :: "string \<Rightarrow> string \<Rightarrow> error + LoadBalancer list"
  CreateL7LoadBalancer :: "L7LoadBalancerCreateInput \<Rightarrow> error + L7LoadBalancer"
  UpdateL7LoadBalancer :: "string \<Rightarrow> L7LoadBalancerUpdateInput \<Rightarrow> error + L7LoadBalancer"
  DeleteL7LoadBalancer :: "string \<Rightarrow> error option"

text \<open>The calls a function makes to the provider, in order.  In \<open>EnsureLB\<close> the case of no
  load balancer (\<open>len(lbs) == 0\<close>) is the empty list; the tests that follow it in the source
  are made on a list with a first element \<open>lbs[0]\<close>.\<close>

datatype lb_call =
    CallCollect string string
  | CallCreateL7 L7LoadBalancerCreateInput
  | CallUpdateL7 string L7LoadBalancerUpdateInput
  | CallDeleteL7 string

subsection \<open>Topology translation (helpers.go)\<close>

definition getLoadBalancerName :: "string \<Rightarrow> string" where
  "getLoadBalancerName uid =
     (let ret = ''a'' @ uid;
          ret1 = filter (\<lambda>c. c \<noteq> CHR ''-'') ret;
          ret2 = (if length ret1 > 32 then take 32 ret1 else ret1)
      in ''gw-'' @ ret2)"

text \<open>The loop over \<open>p.NodeIps\<close> building the members of an upstream zone.\<close>

fun upstreamsLoop :: "string list \<Rightarrow> PathInfo \<Rightarrow> L7UpstreamInput list \<Rightarrow> L7UpstreamInput list" where
  "upstreamsLoop [] p ups = ups"
| "upstreamsLoop (ip # rest) p ups =
     upstreamsLoop rest p
       (ups @ [\<lparr> up_IP = ip, up_Port = to_int32 (pi_NodePort p), up_Weight = 1 \<rparr>])"

text \<open>The loop over \<open>vh.Paths\<close>, with \<open>locationZones\<close> and \<open>upstreamMap\<close>.\<close>

fun pathsLoop ::
  "PathInfo list \<Rightarrow> L7LocationZoneInput list \<Rightarrow> (string \<times> L7UpstreamZoneInput) list \<Rightarrow>
   L7LocationZoneInput list \<times> (string \<times> L7UpstreamZoneInput) list" where
  "pathsLoop [] locationZones upstreamMap = (locationZones, upstreamMap)"
| "pathsLoop (p # rest) locationZones upstreamMap =
     (let upstreamId = ''upstream-zone-'' @ svc_Name (pi_Service p) @ ''-'' @ itoa (pi_NodePort p);
          locationZones' = locationZones @ [\<lparr> lz_Location = pi_Path p, lz_UpstreamID = upstreamId \<rparr>];
          upstreamMap' =
            (case map_of upstreamMap upstreamId of
               Some u \<Rightarrow> upstreamMap
             | None \<Rightarrow>
                 AList.update upstreamId
                   \<lparr> uz_ID = upstreamId, uz_Upstreams = upstreamsLoop (pi_NodeIps p) p [] \<rparr>
                   upstreamMap)
      in pathsLoop rest locationZones' upstreamMap')"

text \<open>The loop over \<open>gwInfo.VHosts\<close>, with \<open>upstreamMap\<close> and \<open>vhostZones\<close>.\<close>

fun vhostsLoop ::
  "(string \<times> VHostInfo) list \<Rightarrow> (string \<times> string) list \<Rightarrow>
   (string \<times> L7UpstreamZoneInput) list \<Rightarrow> L7VHostZoneInput list \<Rightarrow>
   (string \<times> L7UpstreamZoneInput) list \<times> L7VHostZoneInput list" where
  "vhostsLoop [] tlsInfo upstreamMap vhostZones = (upstreamMap, vhostZones)"
| "vhostsLoop ((host, vh) # rest) tlsInfo upstreamMap vhostZones =
     (let sslEnabled = vh_SSL vh;
          sslId = (if sslEnabled then (case map_of tlsInfo host of Some ident \<Rightarrow> ident | None \<Rightarrow> [])
                   else []);
          (locationZones, upstreamMap') = pathsLoop (vh_Paths vh) [] upstreamMap
      in if length (vh_Ports vh) = 0 \<or> length locationZones = 0
         then vhostsLoop rest tlsInfo upstreamMap' vhostZones
         else vhostsLoop rest tlsInfo upstreamMap'
                (vhostZones @
                   [\<lparr> vz_ID = ''vhost-zone-'' @ host, vz_Domains = [host], vz_SSLCertID = sslId,
                      vz_SSL = sslEnabled, vz_Ports = vh_Ports vh,
                      vz_LocationZones = locationZones \<rparr>]))"

text \<open>Go ranges over a map in an order that the runtime chooses.  \<open>rangeOrder picks xs\<close>
  is such an order of the entries \<open>xs\<close>: the next entry is taken from the remaining ones at
  the position that the next pick names (modulo their number), and when the picks are used up
  the remaining entries follow as they are.  Every order of the entries comes from some
  picks.\<close>

fun rangeOrder :: "nat list \<Rightarrow> 'a list \<Rightarrow> 'a list" where
  "rangeOrder picks [] = []"
| "rangeOrder [] (x # xs) = x # xs"
| "rangeOrder (k # picks) (x # xs) =
     (let i = k mod length (x # xs)
      in (x # xs) ! i # rangeOrder picks (take i (x # xs) @ drop (Suc i) (x # xs)))"

text \<open>\<open>translateGatewayToLBInput\<close>.  \<open>locIdStr\<close> is the value of
  \<open>config.FetchEnv("SC_LOCATION_ID", "1")\<close>, which reads the process environment, and
  \<open>picks\<close> gives the order in which the runtime ranges over \<open>upstreamMap\<close>.  The function
  returns the error of \<open>strconv.Atoi\<close> together with the input it has built; every caller
  drops the input when the error is not nil.\<close>

definition translateGatewayToLBInput ::
  "string \<Rightarrow> nat list \<Rightarrow> GatewayInfo \<Rightarrow> (string \<times> string) list \<Rightarrow>
   error + L7LoadBalancerCreateInput" where
  "translateGatewayToLBInput locIdStr picks gwInfo tlsInfo =
     (let (upstreamMap, vhostZones) = vhostsLoop (gi_VHosts gwInfo) tlsInfo [] [];
          upstreamZones = rangeOrder picks (map snd upstreamMap)
      in if length vhostZones = 0 \<or> length upstreamZones = 0
         then Inl (Errorf ''vhost or upstream can't be empty, can't continue'' [])
         else case Atoi locIdStr of
                Inl err \<Rightarrow> Inl err
              | Inr locId \<Rightarrow>
                  Inr \<lparr> ci_Name = getLoadBalancerName (gi_UID gwInfo),
                        ci_LocationID = locId,
                        ci_StoreLogs = None, ci_StoreLogsRegionID = None, ci_Geoip = None,
                        ci_UpstreamZones = upstreamZones,
                        ci_VHostZones = vhostZones,
                        ci_ClusterID = None,
                        ci_Labels = [(GW_LABEL_ID, gi_UID gwInfo)] \<rparr>)"

subsection \<open>LB synchronizer (manager.go)\<close>

text \<open>\<open>strings.EqualFold\<close> folds case by Unicode rune.  Against a string of ASCII letters
  none of which is \<open>k\<close> or \<open>s\<close> (the only ASCII letters that fold to a rune outside ASCII),
  as \<open>active\<close> is, it holds exactly when the two strings have the same length and agree
  byte by byte up to the case of ASCII letters.\<close>

definition asciiLower :: "char \<Rightarrow> char" where
  "asciiLower c =
     (case map_of (zip ''ABCDEFGHIJKLMNOPQRSTUVWXYZ'' ''abcdefghijklmnopqrstuvwxyz'') c of
        Some d \<Rightarrow> d
      | None \<Rightarrow> c)"

definition EqualFold :: "string \<Rightarrow> string \<Rightarrow> bool" where
  "EqualFold s t = (map asciiLower s = map asciiLower t)"

definition getL7LoadBalancersByLabel ::
  "LoadBalancersService \<Rightarrow> string \<Rightarrow> (error + LoadBalancer list) \<times> lb_call list" where
  "getL7LoadBalancersByLabel s labelSelector =
     (CollectLoadBalancers s ''l7'' labelSelector, [CallCollect ''l7'' labelSelector])"

definition EnsureLB ::
  "LoadBalancersService \<Rightarrow> string \<Rightarrow> nat list \<Rightarrow> GatewayInfo \<Rightarrow> (string \<times> string) list \<Rightarrow>
   (error + L7LoadBalancer) \<times> lb_call list" where
  "EnsureLB s locIdStr picks gwInfo hostCertMap =
     (let labelSelector = GW_LABEL_ID @ ''='' @ gi_UID gwInfo;
          (res, calls) = getL7LoadBalancersByLabel s labelSelector
      in case res of
           Inl err \<Rightarrow> (Inl err, calls)
         | Inr lbs \<Rightarrow>
             (case lbs of
                [] \<Rightarrow>
                  (case translateGatewayToLBInput locIdStr picks gwInfo hostCertMap of
                     Inl err \<Rightarrow> (Inl err, calls)
                   | Inr lbInput \<Rightarrow>
                       (CreateL7LoadBalancer s lbInput, calls @ [CallCreateL7 lbInput]))
              | lb # others \<Rightarrow>
                  if length lbs > 1 then
                    (Inl (Errorf ''found more than one lb with same label'' []), calls)
                  else if \<not> EqualFold (lb_Status lb) LB_ACTIVE_STATUS then
                    (Inr \<lparr> l7_ID = [], l7_Status = lb_Status lb, l7_ExternalAddresses = [] \<rparr>,
                     calls)
                  else
                    (case translateGatewayToLBInput locIdStr picks gwInfo hostCertMap of
                       Inl err \<Rightarrow> (Inl err, calls)
                     | Inr lbInput \<Rightarrow>
                         (let lbUpdateInput =
                                \<lparr> ui_Name = ci_Name lbInput,
                                  ui_StoreLogs = ci_StoreLogs lbInput,
                                  ui_StoreLogsRegionID = ci_StoreLogsRegionID lbInput,
                                  ui_Geoip = ci_Geoip lbInput,
                                  ui_VHostZones = ci_VHostZones lbInput,
                                  ui_UpstreamZones = ci_UpstreamZones lbInput,
                                  ui_ClusterID = ci_ClusterID lbInput,
                                  ui_SharedCluster =
                                    (if ci_ClusterID lbInput = None then Some True else None) \<rparr>
                          in (UpdateL7LoadBalancer s (lb_ID lb) lbUpdateInput,
                              calls @ [CallUpdateL7 (lb_ID lb) lbUpdateInput])))))"

text \<open>What a call leaves behind: it returns a value, or it panics (a Go run-time panic, such
  as an index out of range, is not an error value).\<close>

datatype 'a outcome = Returns 'a | Panics string

definition DeleteLB ::
  "LoadBalancersService \<Rightarrow> string \<Rightarrow> (error option) outcome \<times> lb_call list" where
  "DeleteLB s labelSelector =
     (let (res, calls) = getL7LoadBalancersByLabel s labelSelector
      in case res of
           Inl err \<Rightarrow> (Returns (IgnoreNotFound err), calls)
         | Inr lbs \<Rightarrow>
             if length lbs > 1 then
               (Returns (Some (Errorf ''found more than one lb with same label'' [])), calls)
             else
               (case lbs of
                  [] \<Rightarrow> (Panics ''runtime error: index out of range [0] with length 0'', calls)
                | lb # _ \<Rightarrow>
                    (Returns (DeleteL7LoadBalancer s (lb_ID lb)),
                     calls @ [CallDeleteL7 (lb_ID lb)])))"

section \<open>Provider certificates (internal/service/tls)\<close>

subsection \<open>Provider data\<close>

record SSLCertificate =
  cert_ID :: string
  cert_Name :: string
  cert_Sha1Fingerprint :: string
  cert_Labels :: "(string \<times> string) list"

record SSLCertificateCustom =
  custom_ID :: string
  custom_Name :: string
  custom_Sha1Fingerprint :: string
  custom_Labels :: "(string \<times> string) list"

record SSLCertificateUpdateCustomInput =
  uci_PublicKey :: string
  uci_PrivateKey :: string
  uci_ChainKey :: string

record SSLCertificateCreateCustomInput =
  cci_Name :: string
  cci_PublicKey :: string
  cci_PrivateKey :: string
  cci_ChainKey :: string
  cci_Labels :: "(string \<times> string) list"

text \<open>The provider's certificate service, as the answers it gives: \<open>CollectCertificates\<close>
  takes the parameters \<open>label_selector\<close> and \<open>type\<close> of the collection.\<close>

record SSLCertificatesService =
  GetCustom :: "string \<Rightarrow> error + SSLCertificateCustom"
  CollectCertificates :: "string \<Rightarrow> string \<Rightarrow> error + SSLCertificate list"
  UpdateCustom :: "string \<Rightarrow> SSLCertificateUpdateCustomInput \<Rightarrow> error + SSLCertificateCustom"
  CreateCustom :: "SSLCertificateCreateCustomInput \<Rightarrow> error + SSLCertificateCustom"

datatype tls_call =
    CallGetCustom string
  | CallCollectCertificates string string
  | CallUpdateCustom string SSLCertificateUpdateCustomInput
  | CallCreateCustom SSLCertificateCreateCustomInput

subsection \<open>Certificate helpers (helpers.go)\<close>

text \<open>\<open>pem.Decode\<close>, \<open>x509.ParseCertificate\<close> and \<open>sha1.Sum\<close> belong to the Go library, not
  to this repository; the helpers take them as given.  \<open>pemDecode\<close> answers with the first
  PEM block of its input (\<open>None\<close> when it finds none), \<open>ParseCertificate\<close> with the
  certificate or with the text \<open>err.Error()\<close> of its error, the only use that the source
  makes of that error, and \<open>sha1Hex\<close> with \<open>fmt.Sprintf("%x", sha1.Sum(cert))\<close>.  A byte
  slice that may be nil is an optional string.\<close>

record Block =
  pem_Type :: string
  pem_Bytes :: "string option"

record Certificate =
  x509_DNSNames :: "string list"

record CryptoLibrary =
  pemDecode :: "string \<Rightarrow> Block option"
  ParseCertificate :: "string option \<Rightarrow> string + Certificate"
  sha1Hex :: "string \<Rightarrow> string"

definition stripSpaces :: "string \<Rightarrow> string" where
  "stripSpaces b =
     Join (filter (\<lambda>trimmed. trimmed \<noteq> []) (map TrimSpace (Split b (CHR 0x0A)))) (CHR 0x0A)"

text \<open>The loop of \<open>splitCerts\<close> over the lines, with \<open>primary\<close>, \<open>chain\<close>, \<open>started\<close> and
  \<open>iter\<close>.\<close>

fun splitCertsLoop ::
  "string list \<Rightarrow> string list \<Rightarrow> string list \<Rightarrow> bool \<Rightarrow> int \<Rightarrow> string list \<times> string list" where
  "splitCertsLoop [] primary chain started iter = (primary, chain)"
| "splitCertsLoop (line # rest) primary chain started iter =
     (let started' = (if HasPrefix line ''-----BEGIN'' then True else started)
      in if \<not> started' then splitCertsLoop rest primary chain started' iter
         else (let primary' = (if iter = 0 then primary @ [TrimSpace line] else primary);
                   chain' = (if iter = 0 then chain else chain @ [TrimSpace line])
               in if HasPrefix line ''-----END''
                  then splitCertsLoop rest primary' chain' False (iter + 1)
                  else splitCertsLoop rest primary' chain' started' iter))"

definition splitCerts :: "string \<Rightarrow> string option \<times> string option" where
  "splitCerts crt =
     (let sanitizedCert = stripSpaces crt;
          (primary, chain) = splitCertsLoop (Split sanitizedCert (CHR 0x0A)) [] [] False 0
      in if length primary = 0 then (None, None)
         else if length chain = 0 then (Some (Join primary (CHR 0x0A)), None)
         else (Some (Join primary (CHR 0x0A)), Some (Join chain (CHR 0x0A))))"

definition validateCertificate :: "CryptoLibrary \<Rightarrow> string \<Rightarrow> error option" where
  "validateCertificate lib crt =
     (case fst (splitCerts crt) of
        None \<Rightarrow>
          Some (Errorf ''can't find certificate, please verify your tls.crt section'' [])
      | Some primary \<Rightarrow>
          (case pemDecode lib primary of
             None \<Rightarrow>
               Some (Errorf ''can't find certificate, please verify your tls.crt section'' [])
           | Some certDERBlock \<Rightarrow>
               if pem_Type certDERBlock \<noteq> ''CERTIFICATE'' then
                 Some (Errorf ''can't find certificate, expected CERTIFICATE, got: %s''
                         [S (pem_Type certDERBlock)])
               else
                 (case ParseCertificate lib (pem_Bytes certDERBlock) of
                    Inl msg \<Rightarrow> Some (Errorf ''can't parse certificate: %s'' [S msg])
                  | Inr cert \<Rightarrow>
                      if length (x509_DNSNames cert) = 0 then
                        Some (Errorf ''can't find dns names for certificate'' [])
                      else None)))"

text \<open>\<open>findCertificate\<close> of helpers.go, which finds the DER block of a certificate; the
  method of the same name of the manager is \<open>findCertificate\<close> below.\<close>

definition findCertificate_der :: "CryptoLibrary \<Rightarrow> string \<Rightarrow> string option" where
  "findCertificate_der lib crt =
     (case pemDecode lib crt of
        None \<Rightarrow> None
      | Some certDERBlock \<Rightarrow>
          if pem_Type certDERBlock = ''CERTIFICATE'' then pem_Bytes certDERBlock else None)"

definition getPemFingerprint :: "CryptoLibrary \<Rightarrow> string \<Rightarrow> string" where
  "getPemFingerprint lib crt =
     (case findCertificate_der lib (stripSpaces crt) of
        Some cert \<Rightarrow> sha1Hex lib cert
      | None \<Rightarrow> [])"

definition customToSSLCertificate :: "SSLCertificateCustom \<Rightarrow> SSLCertificate" where
  "customToSSLCertificate custom =
     \<lparr> cert_ID = custom_ID custom, cert_Name = custom_Name custom,
       cert_Sha1Fingerprint = custom_Sha1Fingerprint custom,
       cert_Labels = custom_Labels custom \<rparr>"

subsection \<open>TLS synchronizer (manager.go)\<close>

definition getByID :: "SSLCertificatesService \<Rightarrow> string \<Rightarrow> (error + SSLCertificate) \<times> tls_call list"
  where
  "getByID m ident =
     (case GetCustom m ident of
        Inl err \<Rightarrow> (Inl err, [CallGetCustom ident])
      | Inr customCert \<Rightarrow> (Inr (customToSSLCertificate customCert), [CallGetCustom ident]))"

text \<open>The loop of \<open>findCertificate\<close> over the listed certificates.\<close>

fun firstWithFingerprint :: "SSLCertificate list \<Rightarrow> string \<Rightarrow> SSLCertificate option" where
  "firstWithFingerprint [] fingerprint = None"
| "firstWithFingerprint (c # rest) fingerprint =
     (if cert_Sha1Fingerprint c = fingerprint then Some c
      else firstWithFingerprint rest fingerprint)"

definition findCertificate ::
  "SSLCertificatesService \<Rightarrow> string \<Rightarrow> string \<Rightarrow> (error + SSLCertificate option) \<times> tls_call list"
  where
  "findCertificate m fingerprint secretUID =
     (let labelSelector = SECRET_LABEL_ID @ ''='' @ secretUID;
          calls = [CallCollectCertificates labelSelector ''custom'']
      in case CollectCertificates m labelSelector ''custom'' of
           Inl err \<Rightarrow>
             (case IgnoreNotFound err of
                Some err' \<Rightarrow> (Inl err', calls)
              | None \<Rightarrow> (Inr None, calls))
         | Inr certs \<Rightarrow>
             (case firstWithFingerprint certs fingerprint of
                Some c \<Rightarrow> (Inr (Some c), calls)
              | None \<Rightarrow>
                  (case certs of
                     c # _ \<Rightarrow> (Inr (Some c), calls)
                   | [] \<Rightarrow> (Inr None, calls))))"

definition chainKey :: "string \<Rightarrow> string" where
  "chainKey chain = (if length chain > 0 then chain else [])"

definition updateCertificateForSecret ::
  "SSLCertificatesService \<Rightarrow> string \<Rightarrow> string \<Rightarrow> string \<Rightarrow> string \<Rightarrow>
   (error + SSLCertificate) \<times> tls_call list" where
  "updateCertificateForSecret m ident cert key chain =
     (let inp = \<lparr> uci_PublicKey = cert, uci_PrivateKey = key, uci_ChainKey = chainKey chain \<rparr>
      in case UpdateCustom m ident inp of
           Inl err \<Rightarrow> (Inl err, [CallUpdateCustom ident inp])
         | Inr out \<Rightarrow> (Inr (customToSSLCertificate out), [CallUpdateCustom ident inp]))"

definition createCertificateForSecret ::
  "SSLCertificatesService \<Rightarrow> string \<Rightarrow> string \<Rightarrow> string \<Rightarrow> string \<Rightarrow>
   (error + SSLCertificate) \<times> tls_call list" where
  "createCertificateForSecret m secretUID cert key chain =
     (let inp = \<lparr> cci_Name = ''gw-secret-'' @ secretUID, cci_PublicKey = cert,
                  cci_PrivateKey = key, cci_ChainKey = chainKey chain,
                  cci_Labels = [(SECRET_LABEL_ID, secretUID)] \<rparr>
      in case CreateCustom m inp of
           Inl err \<Rightarrow> (Inl err, [CallCreateCustom inp])
         | Inr out \<Rightarrow> (Inr (customToSSLCertificate out), [CallCreateCustom inp]))"

text \<open>The source tests \<open>foundCrt != nil\<close> together with the fingerprint, then together
  with the id, and creates otherwise; with \<open>foundCrt\<close> nil both tests fail.\<close>

definition ensureCertificateForSecret ::
  "SSLCertificatesService \<Rightarrow> string \<Rightarrow> string \<Rightarrow> string \<Rightarrow> string \<Rightarrow> string \<Rightarrow>
   (error + SSLCertificate) \<times> tls_call list" where
  "ensureCertificateForSecret m fingerprint secretUID cert key chain =
     (case findCertificate m fingerprint secretUID of
        (Inl err, calls) \<Rightarrow> (Inl err, calls)
      | (Inr foundCrt, calls) \<Rightarrow>
          (case foundCrt of
             Some c \<Rightarrow>
               if cert_Sha1Fingerprint c = fingerprint then (Inr c, calls)
               else if cert_ID c \<noteq> [] then
                 (let (res, calls') = updateCertificateForSecret m (cert_ID c) cert key chain
                  in (res, calls @ calls'))
               else
                 (let (res, calls') = createCertificateForSecret m secretUID cert key chain
                  in (res, calls @ calls'))
           | None \<Rightarrow>
               (let (res, calls') = createCertificateForSecret m secretUID cert key chain
                in (res, calls @ calls'))))"

text \<open>The bytes of a slice that may be nil: \<open>string(b)\<close> and \<open>len(b)\<close> do not tell a nil
  slice from an empty one, and these are the only uses that the synchronizer makes of the
  leaf and of the chain.\<close>

definition bytesOf :: "string option \<Rightarrow> string" where
  "bytesOf b = (case b of None \<Rightarrow> [] | Some bs \<Rightarrow> bs)"

text \<open>The loop of \<open>EnsureTLS\<close> over \<open>tlsInfo\<close>, with the map \<open>res\<close> and the calls made so
  far.\<close>

fun ensureTLSLoop ::
  "SSLCertificatesService \<Rightarrow> CryptoLibrary \<Rightarrow> (string \<times> TLSConfigInfo) list \<Rightarrow>
   (string \<times> string) list \<Rightarrow> tls_call list \<Rightarrow>
   (error + (string \<times> string) list) \<times> tls_call list" where
  "ensureTLSLoop m lib [] res calls = (Inr res, calls)"
| "ensureTLSLoop m lib ((host, info) # rest) res calls =
     (if ti_ExternalID info \<noteq> [] then
        (case getByID m (ti_ExternalID info) of
           (Inl err, cs) \<Rightarrow>
             (Inl (Errorf ''provider certificate id %q for host %q not found: %w''
                     [S (ti_ExternalID info), S host, W err]), calls @ cs)
         | (Inr cert, cs) \<Rightarrow>
             ensureTLSLoop m lib rest (AList.update host (cert_ID cert) res) (calls @ cs))
      else case ti_Secret info of
        None \<Rightarrow> (Inl (Errorf ''no secret or ExternalID for host %q'' [S host]), calls)
      | Some secret \<Rightarrow>
          (case map_of (sec_Data secret) TLSCertKey of
             None \<Rightarrow> (Inl (Errorf ''secret for host %q has no tls.crt'' [S host]), calls)
           | Some certPEM \<Rightarrow>
               (case map_of (sec_Data secret) TLSPrivateKeyKey of
                  None \<Rightarrow> (Inl (Errorf ''secret for host %q has no tls.key'' [S host]), calls)
                | Some keyPEM \<Rightarrow>
                    (case validateCertificate lib certPEM of
                       Some err \<Rightarrow>
                         (Inl (Errorf ''invalid certificate for host %q: %w'' [S host, W err]),
                          calls)
                     | None \<Rightarrow>
                         (let (primary, chain) = splitCerts certPEM;
                              fp = getPemFingerprint lib (bytesOf primary)
                          in case ensureCertificateForSecret m fp (sec_UID secret)
                                    (bytesOf primary) keyPEM (bytesOf chain) of
                               (Inl err, cs) \<Rightarrow>
                                 (Inl (Errorf ''findOrCreate tls for host %q failed: %w''
                                         [S host, W err]), calls @ cs)
                             | (Inr certObj, cs) \<Rightarrow>
                                 ensureTLSLoop m lib rest
                                   (AList.update host (cert_ID certObj) res) (calls @ cs))))))"

definition EnsureTLS ::
  "SSLCertificatesService \<Rightarrow> CryptoLibrary \<Rightarrow> (string \<times> TLSConfigInfo) list \<Rightarrow>
   (error + (string \<times> string) list) \<times> tls_call list" where
  "EnsureTLS m lib tlsInfo = ensureTLSLoop m lib tlsInfo [] []"

section \<open>Reconcile orchestrator (Reconcile in internal/gateway/controller/gateway.go)\<close>

text \<open>The orchestrator reaches the two synchronizers through their interfaces; an
  implementation is given by the answer of each operation.\<close>

record LBManagerInterface =
  lbm_EnsureLB :: "GatewayInfo \<Rightarrow> (string \<times> string) list \<Rightarrow> error + L7LoadBalancer"
  lbm_DeleteLB :: "string \<Rightarrow> error option"

record TLSManagerInterface =
  tlsm_EnsureTLS :: "(string \<times> TLSConfigInfo) list \<Rightarrow> error + (string \<times> string) list"

record GatewayReconciler =
  rc_Client :: Client
  rc_ControllerName :: string
  rc_GatewayClassName :: string
  rc_LBMgr :: LBManagerInterface
  rc_TLSMgr :: TLSManagerInterface

text \<open>What one pass does to the world outside, in order: the calls to the two managers
  (with what they answered), the patches sent to the cluster (with the object sent) and the
  events recorded.  The reads of the cluster are not listed.\<close>

datatype action =
    CallDeleteLB string "error option"
  | CallEnsureTLS "(string \<times> TLSConfigInfo) list" "error + (string \<times> string) list"
  | CallEnsureLB GatewayInfo "(string \<times> string) list" "error + L7LoadBalancer"
  | CallPatch Gateway
  | CallStatusPatch Gateway
  | RecorderEvent string string message

text \<open>\<open>ctrl.Result\<close>: the requested delay in seconds, 0 for none.\<close>

record Result =
  RequeueAfter :: nat

definition ContainsFinalizer :: "Gateway \<Rightarrow> string \<Rightarrow> bool" where
  "ContainsFinalizer gw finalizer = (finalizer \<in> set (gw_Finalizers gw))"

definition AddFinalizer :: "Gateway \<Rightarrow> string \<Rightarrow> Gateway" where
  "AddFinalizer gw finalizer =
     (if finalizer \<in> set (gw_Finalizers gw) then gw
      else gw \<lparr> gw_Finalizers := gw_Finalizers gw @ [finalizer] \<rparr>)"

definition RemoveFinalizer :: "Gateway \<Rightarrow> string \<Rightarrow> Gateway" where
  "RemoveFinalizer gw finalizer =
     gw \<lparr> gw_Finalizers := filter (\<lambda>f. f \<noteq> finalizer) (gw_Finalizers gw) \<rparr>"

text \<open>\<open>meta.SetStatusCondition\<close>, without the transition time: the first condition of the
  same type takes the new status, reason, message and generation; with none of that type the
  new condition is appended.\<close>

fun SetStatusCondition :: "Condition list \<Rightarrow> Condition \<Rightarrow> Condition list" where
  "SetStatusCondition [] newCondition = [newCondition]"
| "SetStatusCondition (c # rest) newCondition =
     (if c_Type c = c_Type newCondition
      then c \<lparr> c_Status := c_Status newCondition, c_Reason := c_Reason newCondition,
               c_Message := c_Message newCondition,
               c_ObservedGeneration := c_ObservedGeneration newCondition \<rparr> # rest
      else c # SetStatusCondition rest newCondition)"

text \<open>\<open>strings.ToLower\<close> maps each rune to lower case.  The runes whose lower case is an
  ASCII letter of \<open>active\<close> are the upper-case ASCII letters and U+0130 (bytes C4 B0, lower
  case \<open>i\<close>); every other rune outside ASCII stays outside ASCII.  The function below maps
  those, and leaves the other bytes as they are, so that comparing its result with
  \<open>active\<close> gives what the source computes.\<close>

fun ToLower :: "string \<Rightarrow> string" where
  "ToLower [] = []"
| "ToLower [c] = [asciiLower c]"
| "ToLower (c # d # rest) =
     (if c = CHR 0xC4 \<and> d = CHR 0xB0 then CHR ''i'' # ToLower rest
      else asciiLower c # ToLower (d # rest))"

definition isManagedGateway :: "GatewayReconciler \<Rightarrow> Gateway \<Rightarrow> bool \<times> error option" where
  "isManagedGateway r gw =
     (let gwClassName = gw_GatewayClassName gw
      in case getGatewayClass (rc_Client r) gwClassName of
           Inl err \<Rightarrow> (False, client_IgnoreNotFound err)
         | Inr gwClass \<Rightarrow>
             if gc_ControllerName gwClass \<noteq> rc_ControllerName r then (False, None)
             else if rc_GatewayClassName r \<noteq> [] \<and> gc_Name gwClass \<noteq> rc_GatewayClassName r
               then (False, None)
             else (True, None))"

text \<open>\<open>cleanup\<close>: the error, the Gateway as the function leaves it in memory, and the
  actions.\<close>

definition cleanup ::
  "GatewayReconciler \<Rightarrow> Gateway \<Rightarrow> string \<Rightarrow> (error option \<times> Gateway) \<times> action list" where
  "cleanup r gw finalizer =
     (let labelSelector = GW_LABEL_ID @ ''='' @ gw_UID gw;
          res = lbm_DeleteLB (rc_LBMgr r) labelSelector
      in case res of
           Some err \<Rightarrow> ((Some err, gw), [CallDeleteLB labelSelector res])
         | None \<Rightarrow>
             (let gw' = RemoveFinalizer gw finalizer
              in case patch (rc_Client r) gw' of
                   Some err \<Rightarrow> ((Some err, gw'), [CallDeleteLB labelSelector res, CallPatch gw'])
                 | None \<Rightarrow> ((None, gw'), [CallDeleteLB labelSelector res, CallPatch gw'])))"

definition setGatewayStatusCondition ::
  "GatewayReconciler \<Rightarrow> Gateway \<Rightarrow> string \<Rightarrow> string \<Rightarrow> message \<Rightarrow> string \<Rightarrow>
   (error option \<times> Gateway) \<times> action list" where
  "setGatewayStatusCondition r gw condType reason msg status =
     (let cond = \<lparr> c_Type = condType, c_Status = status, c_Reason = reason, c_Message = msg,
                   c_ObservedGeneration = gw_Generation gw \<rparr>;
          gw' = gw \<lparr> gw_Conditions := SetStatusCondition (gw_Conditions gw) cond \<rparr>
      in ((statusPatch (rc_Client r) gw', gw'), [CallStatusPatch gw']))"

definition IPAddressType :: string where "IPAddressType = ''IPAddress''"

text \<open>The part of \<open>Reconcile\<close> after the finalizer is in place: resolution and build,
  then the two synchronizations and the status.\<close>

definition reconcileManaged ::
  "GatewayReconciler \<Rightarrow> Gateway \<Rightarrow> (Result \<times> error option) \<times> action list" where
  "reconcileManaged r gw =
     (case buildTLSInfo (rc_Client r) gw of
        Inl err \<Rightarrow>
          (let ((_, gw1), a1) =
                 setGatewayStatusCondition r gw ''Accepted'' ''InvalidTLS'' (ErrorText err) ''False''
           in ((\<lparr> RequeueAfter = 0 \<rparr>, None),
               [RecorderEvent ''Warning'' ''InvalidTLS'' (ErrorText err)] @ a1))
      | Inr tlsInfo \<Rightarrow>
     (case buildGatewayInfo (rc_Client r) gw of
        Inl err \<Rightarrow>
          (let ((_, gw1), a1) =
                 setGatewayStatusCondition r gw ''Accepted'' ''InvalidGateway'' (ErrorText err)
                   ''False''
           in ((\<lparr> RequeueAfter = 0 \<rparr>, None),
               [RecorderEvent ''Warning'' ''InvalidGateway'' (ErrorText err)] @ a1))
      | Inr gwInfo \<Rightarrow>
     (let ((_, gw1), a1) =
            setGatewayStatusCondition r gw ''Accepted'' ''Accepted''
              (Text ''Gateway is valid and accepted'') ''True'';
          tlsRes = tlsm_EnsureTLS (rc_TLSMgr r) tlsInfo;
          a2 = a1 @ [CallEnsureTLS tlsInfo tlsRes]
      in case tlsRes of
        Inl err \<Rightarrow>
          (let ((_, gw2), a3) =
                 setGatewayStatusCondition r gw1 ''Programmed'' ''SyncTLSFailed'' (ErrorText err)
                   ''False''
           in ((\<lparr> RequeueAfter = 10 \<rparr>, None),
               a2 @ a3 @ [RecorderEvent ''Warning'' ''SyncTLSFailed'' (ErrorText err)]))
      | Inr hostsCertIDMap \<Rightarrow>
     (let lbRes = lbm_EnsureLB (rc_LBMgr r) gwInfo hostsCertIDMap;
          a4 = a2 @ [CallEnsureLB gwInfo hostsCertIDMap lbRes]
      in case lbRes of
        Inl err \<Rightarrow>
          (let ((_, gw2), a5) =
                 setGatewayStatusCondition r gw1 ''Programmed'' ''SyncFailed'' (ErrorText err)
                   ''False''
           in ((\<lparr> RequeueAfter = 10 \<rparr>, None),
               a4 @ a5 @ [RecorderEvent ''Warning'' ''SyncFailed'' (ErrorText err)]))
      | Inr lb \<Rightarrow>
          if ToLower (l7_Status lb) \<noteq> LB_ACTIVE_STATUS then
            (let msg = Text ''Load balancer created, waiting for status=Active'';
                 ((_, gw2), a5) =
                   setGatewayStatusCondition r gw1 ''Programmed'' ''Created'' msg ''False''
             in ((\<lparr> RequeueAfter = 10 \<rparr>, None),
                 a4 @ a5 @ [RecorderEvent ''Warning'' ''Created'' msg]))
          else
            (let addresses = map (\<lambda>ip. (IPAddressType, ip)) (l7_ExternalAddresses lb);
                 cond = \<lparr> c_Type = ''Programmed'', c_Status = ''True'', c_Reason = ''Programmed'',
                          c_Message = Text ''Successfully programmed'',
                          c_ObservedGeneration = gw_Generation gw1 \<rparr>;
                 gw2 = gw1 \<lparr> gw_Addresses := addresses,
                             gw_Conditions := SetStatusCondition (gw_Conditions gw1) cond \<rparr>
             in case statusPatch (rc_Client r) gw2 of
                  Some err \<Rightarrow> ((\<lparr> RequeueAfter = 0 \<rparr>, Some err), a4 @ [CallStatusPatch gw2])
                | None \<Rightarrow>
                    ((\<lparr> RequeueAfter = 0 \<rparr>, None),
                     a4 @ [CallStatusPatch gw2,
                           RecorderEvent ''Normal'' ''Synced'' (Text ''Successfully synced'')]))))))"

text \<open>\<open>Reconcile\<close> for the request \<open>(namespace, name)\<close>.\<close>

definition Reconcile ::
  "GatewayReconciler \<Rightarrow> string \<times> string \<Rightarrow> (Result \<times> error option) \<times> action list" where
  "Reconcile r req =
     (case getGateway (rc_Client r) (fst req) (snd req) of
        Inl err \<Rightarrow> ((\<lparr> RequeueAfter = 0 \<rparr>, client_IgnoreNotFound err), [])
      | Inr gw \<Rightarrow>
          if \<not> (gw_DeletionTimestamp gw = None \<or> gw_DeletionTimestamp gw = Some 0) \<and>
             ContainsFinalizer gw GW_FINALIZER
          then
            (let ((err, gw1), a1) = cleanup r gw GW_FINALIZER
             in ((\<lparr> RequeueAfter = 0 \<rparr>, err), a1))
          else
            (case isManagedGateway r gw of
               (managed, Some err) \<Rightarrow> ((\<lparr> RequeueAfter = 0 \<rparr>, Some err), [])
             | (managed, None) \<Rightarrow>
                 if \<not> managed then
                   (let ((err, gw1), a1) = cleanup r gw GW_FINALIZER
                    in case err of
                         Some e \<Rightarrow> ((\<lparr> RequeueAfter = 0 \<rparr>, Some e), a1)
                       | None \<Rightarrow>
                           (let cond = \<lparr> c_Type = ''Programmed'', c_Status = ''False'',
                                         c_Reason = ''NoLongerManaged'',
                                         c_Message = Sprintf ''Gateway is no longer managed by %s''
                                                       [S (rc_ControllerName r)],
                                         c_ObservedGeneration = gw_Generation gw1 \<rparr>;
                                gw2 = gw1 \<lparr> gw_Conditions :=
                                              SetStatusCondition (gw_Conditions gw1) cond \<rparr>
                            in ((\<lparr> RequeueAfter = 0 \<rparr>, statusPatch (rc_Client r) gw2),
                                a1 @ [CallStatusPatch gw2])))
                 else if \<not> ContainsFinalizer gw GW_FINALIZER then
                   (let gw1 = AddFinalizer gw GW_FINALIZER
                    in case patch (rc_Client r) gw1 of
                         Some err \<Rightarrow> ((\<lparr> RequeueAfter = 0 \<rparr>, Some err), [CallPatch gw1])
                       | None \<Rightarrow>
                           (let (res, a1) = reconcileManaged r gw1
                            in (res, [CallPatch gw1] @ a1)))
                 else reconcileManaged r gw))"

section \<open>Concrete inputs\<close>

text \<open>A cluster client that lists the given nodes and routes, knows every namespace
  (without labels) and no other object, and accepts every patch.\<close>

definition exampleClient :: "Node list \<Rightarrow> HTTPRoute list \<Rightarrow> Client" where
  "exampleClient nodes routes =
     \<lparr> listNodes = Inr nodes, listHTTPRoutes = Inr routes,
       getNamespace = (\<lambda>ns. Inr []),
       getService = (\<lambda>ns name. Inl (StatusNotFound name)),
       getSecret = (\<lambda>ns name. Inl (StatusNotFound name)),
       getGateway = (\<lambda>ns name. Inl (StatusNotFound name)),
       getGatewayClass = (\<lambda>name. Inl (StatusNotFound name)),
       patch = (\<lambda>gw. None), statusPatch = (\<lambda>gw. None) \<rparr>"

text \<open>A node as the kubelet reports it: host name, internal address, external address.\<close>

definition exampleNode :: Node where
  "exampleNode =
     \<lparr> node_Addresses = [\<lparr> na_Type = ''Hostname'', na_Address = ''node-1'' \<rparr>,
                         \<lparr> na_Type = ''InternalIP'', na_Address = ''10.0.0.10'' \<rparr>,
                         \<lparr> na_Type = ''ExternalIP'', na_Address = ''203.0.113.7'' \<rparr>] \<rparr>"

text \<open>A provider whose list of load balancers is the given answer; it creates a pending
  load balancer, updates to an active one and deletes without error.\<close>

definition exampleLBService :: "(error + LoadBalancer list) \<Rightarrow> LoadBalancersService" where
  "exampleLBService listed =
     \<lparr> CollectLoadBalancers = (\<lambda>type sel. listed),
       CreateL7LoadBalancer =
         (\<lambda>inp. Inr \<lparr> l7_ID = ''lb-new'', l7_Status = ''pending'', l7_ExternalAddresses = [] \<rparr>),
       UpdateL7LoadBalancer =
         (\<lambda>ident inp. Inr \<lparr> l7_ID = ident, l7_Status = ''active'',
                             l7_ExternalAddresses = [''203.0.113.10''] \<rparr>),
       DeleteL7LoadBalancer = (\<lambda>ident. None) \<rparr>"

text \<open>A provider whose list of certificates is the given answer; the fingerprint it reports
  for a stored certificate is a stand-in for the SHA-1 of the content.\<close>

definition exampleCertService :: "(error + SSLCertificate list) \<Rightarrow> SSLCertificatesService" where
  "exampleCertService listed =
     \<lparr> GetCustom =
         (\<lambda>ident. Inr \<lparr> custom_ID = ident, custom_Name = ''external'',
                         custom_Sha1Fingerprint = ''ee'', custom_Labels = [] \<rparr>),
       CollectCertificates = (\<lambda>sel type. listed),
       UpdateCustom =
         (\<lambda>ident inp. Inr \<lparr> custom_ID = ident, custom_Name = ''gw-secret'',
                             custom_Sha1Fingerprint = ''sha1:'' @ uci_PublicKey inp,
                             custom_Labels = [] \<rparr>),
       CreateCustom =
         (\<lambda>inp. Inr \<lparr> custom_ID = ''cert-new'', custom_Name = cci_Name inp,
                       custom_Sha1Fingerprint = ''sha1:'' @ cci_PublicKey inp,
                       custom_Labels = cci_Labels inp \<rparr>) \<rparr>"

text \<open>A certificate for \<open>example.com\<close> (self-signed, ECDSA P-256): the lines of its PEM
  text, the text without the final line feed, the DER bytes that the text encodes, and the
  SHA-1 of those bytes in hexadecimal.\<close>

definition exampleLines :: "string list" where
  "exampleLines =
     [''-----BEGIN CERTIFICATE-----'',
      ''MIIBhzCCASygAwIBAgIBATAKBggqhkjOPQQDAjAWMRQwEgYDVQQDDAtleGFtcGxl'',
      ''LmNvbTAeFw0yNjExMDEyMzM3NDJaFw0zNjEwMjkyMzM3NDJaMBYxFDASBgNVBAMM'',
      ''C2V4YW1wbGUuY29tMFkwEwYHKoZIzj0CAQYIKoZIzj0DAQcDQgAEohmH0fUF2U/J'',
      ''jvTjczKOusoVU+9PVQ/Sl6SR0TygOotMzQDKDjoJOIReCe4yNTsqSgNxBnV1wMwt'',
      ''H7yhd184h6NrMGkwHQYDVR0OBBYEFMrtGiIhnF1cvjjOcos/bwwIzsIGMB8GA1Ud'',
      ''IwQYMBaAFMrtGiIhnF1cvjjOcos/bwwIzsIGMA8GA1UdEwEB/wQFMAMBAf8wFgYD'',
      ''VR0RBA8wDYILZXhhbXBsZS5jb20wCgYIKoZIzj0EAwIDSQAwRgIhAO8ASpUdQ4mM'',
      ''fODv/L46jsQlCEtPK0/2W9s5Y3mhDoZQAiEA8xxx7cCKbg3jQjTXr6zpkGETWPSk'',
      ''jKX72ycRYm5GakQ='',
      ''-----END CERTIFICATE-----'']"

definition examplePrimary :: string where
  "examplePrimary = Join exampleLines (CHR 0x0A)"

definition exampleDER :: string where
  "exampleDER =
     [CHR 0x30, CHR 0x82, CHR 0x01, CHR 0x87, CHR 0x30, CHR 0x82, CHR 0x01, CHR 0x2C,
      CHR 0xA0, CHR 0x03, CHR 0x02, CHR 0x01, CHR 0x02, CHR 0x02, CHR 0x01, CHR 0x01,
      CHR 0x30, CHR 0x0A, CHR 0x06, CHR 0x08, CHR 0x2A, CHR 0x86, CHR 0x48, CHR 0xCE,
      CHR 0x3D, CHR 0x04, CHR 0x03, CHR 0x02, CHR 0x30, CHR 0x16, CHR 0x31, CHR 0x14,
      CHR 0x30, CHR 0x12, CHR 0x06, CHR 0x03, CHR 0x55, CHR 0x04, CHR 0x03, CHR 0x0C,
      CHR 0x0B, CHR 0x65, CHR 0x78, CHR 0x61, CHR 0x6D, CHR 0x70, CHR 0x6C, CHR 0x65,
      CHR 0x2E, CHR 0x63, CHR 0x6F, CHR 0x6D, CHR 0x30, CHR 0x1E, CHR 0x17, CHR 0x0D,
      CHR 0x32, CHR 0x36, CHR 0x31, CHR 0x31, CHR 0x30, CHR 0x31, CHR 0x32, CHR 0x33,
      CHR 0x33, CHR 0x37, CHR 0x34, CHR 0x32, CHR 0x5A, CHR 0x17, CHR 0x0D, CHR 0x33,
      CHR 0x36, CHR 0x31, CHR 0x30, CHR 0x32, CHR 0x39, CHR 0x32, CHR 0x33, CHR 0x33,
      CHR 0x37, CHR 0x34, CHR 0x32, CHR 0x5A, CHR 0x30, CHR 0x16, CHR 0x31, CHR 0x14,
      CHR 0x30, CHR 0x12, CHR 0x06, CHR 0x03, CHR 0x55, CHR 0x04, CHR 0x03, CHR 0x0C,
      CHR 0x0B, CHR 0x65, CHR 0x78, CHR 0x61, CHR 0x6D, CHR 0x70, CHR 0x6C, CHR 0x65,
      CHR 0x2E, CHR 0x63, CHR 0x6F, CHR 0x6D, CHR 0x30, CHR 0x59, CHR 0x30, CHR 0x13,
      CHR 0x06, CHR 0x07, CHR 0x2A, CHR 0x86, CHR 0x48, CHR 0xCE, CHR 0x3D, CHR 0x02,
      CHR 0x01, CHR 0x06, CHR 0x08, CHR 0x2A, CHR 0x86, CHR 0x48, CHR 0xCE, CHR 0x3D,
      CHR 0x03, CHR 0x01, CHR 0x07, CHR 0x03, CHR 0x42, CHR 0x00, CHR 0x04, CHR 0xA2,
      CHR 0x19, CHR 0x87, CHR 0xD1, CHR 0xF5, CHR 0x05, CHR 0xD9, CHR 0x4F, CHR 0xC9,
      CHR 0x8E, CHR 0xF4, CHR 0xE3, CHR 0x73, CHR 0x32, CHR 0x8E, CHR 0xBA, CHR 0xCA,
      CHR 0x15, CHR 0x53, CHR 0xEF, CHR 0x4F, CHR 0x55, CHR 0x0F, CHR 0xD2, CHR 0x97,
      CHR 0xA4, CHR 0x91, CHR 0xD1, CHR 0x3C, CHR 0xA0, CHR 0x3A, CHR 0x8B, CHR 0x4C,
      CHR 0xCD, CHR 0x00, CHR 0xCA, CHR 0x0E, CHR 0x3A, CHR 0x09, CHR 0x38, CHR 0x84,
      CHR 0x5E, CHR 0x09, CHR 0xEE, CHR 0x32, CHR 0x35, CHR 0x3B, CHR 0x2A, CHR 0x4A,
      CHR 0x03, CHR 0x71, CHR 0x06, CHR 0x75, CHR 0x75, CHR 0xC0, CHR 0xCC, CHR 0x2D,
      CHR 0x1F, CHR 0xBC, CHR 0xA1, CHR 0x77, CHR 0x5F, CHR 0x38, CHR 0x87, CHR 0xA3,
      CHR 0x6B, CHR 0x30, CHR 0x69, CHR 0x30, CHR 0x1D, CHR 0x06, CHR 0x03, CHR 0x55,
      CHR 0x1D, CHR 0x0E, CHR 0x04, CHR 0x16, CHR 0x04, CHR 0x14, CHR 0xCA, CHR 0xED,
      CHR 0x1A, CHR 0x22, CHR 0x21, CHR 0x9C, CHR 0x5D, CHR 0x5C, CHR 0xBE, CHR 0x38,
      CHR 0xCE, CHR 0x72, CHR 0x8B, CHR 0x3F, CHR 0x6F, CHR 0x0C, CHR 0x08, CHR 0xCE,
      CHR 0xC2, CHR 0x06, CHR 0x30, CHR 0x1F, CHR 0x06, CHR 0x03, CHR 0x55, CHR 0x1D,
      CHR 0x23, CHR 0x04, CHR 0x18, CHR 0x30, CHR 0x16, CHR 0x80, CHR 0x14, CHR 0xCA,
      CHR 0xED, CHR 0x1A, CHR 0x22, CHR 0x21, CHR 0x9C, CHR 0x5D, CHR 0x5C, CHR 0xBE,
      CHR 0x38, CHR 0xCE, CHR 0x72, CHR 0x8B, CHR 0x3F, CHR 0x6F, CHR 0x0C, CHR 0x08,
      CHR 0xCE, CHR 0xC2, CHR 0x06, CHR 0x30, CHR 0x0F, CHR 0x06, CHR 0x03, CHR 0x55,
      CHR 0x1D, CHR 0x13, CHR 0x01, CHR 0x01, CHR 0xFF, CHR 0x04, CHR 0x05, CHR 0x30,
      CHR 0x03, CHR 0x01, CHR 0x01, CHR 0xFF, CHR 0x30, CHR 0x16, CHR 0x06, CHR 0x03,
      CHR 0x55, CHR 0x1D, CHR 0x11, CHR 0x04, CHR 0x0F, CHR 0x30, CHR 0x0D, CHR 0x82,
      CHR 0x0B, CHR 0x65, CHR 0x78, CHR 0x61, CHR 0x6D, CHR 0x70, CHR 0x6C, CHR 0x65,
      CHR 0x2E, CHR 0x63, CHR 0x6F, CHR 0x6D, CHR 0x30, CHR 0x0A, CHR 0x06, CHR 0x08,
      CHR 0x2A, CHR 0x86, CHR 0x48, CHR 0xCE, CHR 0x3D, CHR 0x04, CHR 0x03, CHR 0x02,
      CHR 0x03, CHR 0x49, CHR 0x00, CHR 0x30, CHR 0x46, CHR 0x02, CHR 0x21, CHR 0x00,
      CHR 0xEF, CHR 0x00, CHR 0x4A, CHR 0x95, CHR 0x1D, CHR 0x43, CHR 0x89, CHR 0x8C,
      CHR 0x7C, CHR 0xE0, CHR 0xEF, CHR 0xFC, CHR 0xBE, CHR 0x3A, CHR 0x8E, CHR 0xC4,
      CHR 0x25, CHR 0x08, CHR 0x4B, CHR 0x4F, CHR 0x2B, CHR 0x4F, CHR 0xF6, CHR 0x5B,
      CHR 0xDB, CHR 0x39, CHR 0x63, CHR 0x79, CHR 0xA1, CHR 0x0E, CHR 0x86, CHR 0x50,
      CHR 0x02, CHR 0x21, CHR 0x00, CHR 0xF3, CHR 0x1C, CHR 0x71, CHR 0xED, CHR 0xC0,
      CHR 0x8A, CHR 0x6E, CHR 0x0D, CHR 0xE3, CHR 0x42, CHR 0x34, CHR 0xD7, CHR 0xAF,
      CHR 0xAC, CHR 0xE9, CHR 0x90, CHR 0x61, CHR 0x13, CHR 0x58, CHR 0xF4, CHR 0xA4,
      CHR 0x8C, CHR 0xA5, CHR 0xFB, CHR 0xDB, CHR 0x27, CHR 0x11, CHR 0x62, CHR 0x6E,
      CHR 0x46, CHR 0x6A, CHR 0x44]"

definition exampleFingerprint :: string where
  "exampleFingerprint = ''544084ee40ae39ecdd55570d6922aa4a15f80e4e''"

text \<open>The Go library on that certificate.  \<open>pem.Decode\<close> of the PEM text gives a block of type
  \<open>CERTIFICATE\<close> with the DER bytes, \<open>x509.ParseCertificate\<close> of the DER bytes a certificate
  with the DNS name \<open>example.com\<close>, and their SHA-1 is the fingerprint above.  Of any other
  input this library knows nothing: it finds no PEM block, parses no certificate and hashes
  to the empty text.\<close>

definition exampleCrypto :: CryptoLibrary where
  "exampleCrypto =
     \<lparr> pemDecode =
         (\<lambda>data. if data = examplePrimary
                  then Some \<lparr> pem_Type = ''CERTIFICATE'', pem_Bytes = Some exampleDER \<rparr>
                  else None),
       ParseCertificate =
         (\<lambda>der. if der = Some exampleDER then Inr \<lparr> x509_DNSNames = [''example.com''] \<rparr>
                 else Inl ''x509: malformed certificate''),
       sha1Hex = (\<lambda>cert. if cert = exampleDER then exampleFingerprint else []) \<rparr>"

definition exampleCert :: "string \<Rightarrow> string \<Rightarrow> SSLCertificate" where
  "exampleCert ident fp =
     \<lparr> cert_ID = ident, cert_Name = ''gw-secret-uid-s'', cert_Sha1Fingerprint = fp,
       cert_Labels = [(''k8s.srvrscloud.com/api-secret-id'', ''uid-s'')] \<rparr>"

definition exampleSecret :: Secret where
  "exampleSecret =
     \<lparr> sec_Namespace = ''infra'', sec_Name = ''tls'', sec_UID = ''uid-s'',
       sec_Data = [(''tls.crt'', examplePrimary @ [CHR 0x0A]), (''tls.key'', ''KEY'')] \<rparr>"

section \<open>Notions used in the statements\<close>

text \<open>An address of a node that \<open>getNodesIpList\<close> can take: external or internal.\<close>

definition usableAddress :: "NodeAddress \<Rightarrow> bool" where
  "usableAddress addr = (na_Type addr = ''ExternalIP'' \<or> na_Type addr = ''InternalIP'')"

text \<open>The update input that \<open>EnsureLB\<close> derives from a translated topology: a full
  replacement of the name and of all virtual host and upstream zones.\<close>

definition updateInputOf :: "L7LoadBalancerCreateInput \<Rightarrow> L7LoadBalancerUpdateInput" where
  "updateInputOf lbInput =
     \<lparr> ui_Name = ci_Name lbInput, ui_StoreLogs = ci_StoreLogs lbInput,
       ui_StoreLogsRegionID = ci_StoreLogsRegionID lbInput, ui_Geoip = ci_Geoip lbInput,
       ui_VHostZones = ci_VHostZones lbInput, ui_UpstreamZones = ci_UpstreamZones lbInput,
       ui_ClusterID = ci_ClusterID lbInput,
       ui_SharedCluster = (if ci_ClusterID lbInput = None then Some True else None) \<rparr>"

text \<open>The topology of the repository's own test of \<open>EnsureLB\<close>, what it translates to with
  location id 1, and a topology without virtual hosts (a Gateway no route is attached to).\<close>

definition exampleService :: Service where
  "exampleService = \<lparr> svc_Namespace = ''default'', svc_Name = ''svc'',
                       svc_Ports = [\<lparr> sp_Port = 80, sp_NodePort = 30080 \<rparr>] \<rparr>"

definition exampleGatewayInfo :: GatewayInfo where
  "exampleGatewayInfo =
     \<lparr> gi_UID = ''gw-uid'', gi_Name = ''gw-name'', gi_NS = ''default'',
       gi_VHosts =
         [(''example.com'',
           \<lparr> vh_Host = ''example.com'', vh_SSL = True, vh_Ports = [443],
             vh_Paths = [\<lparr> pi_Path = ''/'', pi_Service = exampleService, pi_NodePort = 30080,
                            pi_NodeIps = [''1.1.1.1''] \<rparr>] \<rparr>)] \<rparr>"

definition emptyGatewayInfo :: GatewayInfo where
  "emptyGatewayInfo =
     \<lparr> gi_UID = ''gw-uid'', gi_Name = ''gw-name'', gi_NS = ''default'', gi_VHosts = [] \<rparr>"

definition exampleLBInput :: L7LoadBalancerCreateInput where
  "exampleLBInput =
     \<lparr> ci_Name = ''gw-agwuid'', ci_LocationID = 1, ci_StoreLogs = None,
       ci_StoreLogsRegionID = None, ci_Geoip = None,
       ci_UpstreamZones =
         [\<lparr> uz_ID = ''upstream-zone-svc-30080'',
            uz_Upstreams = [\<lparr> up_IP = ''1.1.1.1'', up_Port = 30080, up_Weight = 1 \<rparr>] \<rparr>],
       ci_VHostZones =
         [\<lparr> vz_ID = ''vhost-zone-example.com'', vz_Domains = [''example.com''],
            vz_SSLCertID = ''cert-id'', vz_SSL = True, vz_Ports = [443],
            vz_LocationZones =
              [\<lparr> lz_Location = ''/'', lz_UpstreamID = ''upstream-zone-svc-30080'' \<rparr>] \<rparr>],
       ci_ClusterID = None,
       ci_Labels = [(''k8s.srvrscloud.com/api-gateway-id'', ''gw-uid'')] \<rparr>"

text \<open>The TLS requirement of a host that is backed by a secret.\<close>

definition secretHost :: "Secret \<Rightarrow> TLSConfigInfo" where
  "secretHost secret = \<lparr> ti_ExternalID = [], ti_Secret = Some secret \<rparr>"

text \<open>The inputs of the provider's update and create that the synchronizer builds from the
  leaf, the key and the chain.\<close>

definition certUpdateInput :: "string \<Rightarrow> string \<Rightarrow> string \<Rightarrow> SSLCertificateUpdateCustomInput" where
  "certUpdateInput cert key chain =
     \<lparr> uci_PublicKey = cert, uci_PrivateKey = key, uci_ChainKey = chainKey chain \<rparr>"

definition certCreateInput ::
  "string \<Rightarrow> string \<Rightarrow> string \<Rightarrow> string \<Rightarrow> SSLCertificateCreateCustomInput" where
  "certCreateInput secretUID cert key chain =
     \<lparr> cci_Name = ''gw-secret-'' @ secretUID, cci_PublicKey = cert, cci_PrivateKey = key,
       cci_ChainKey = chainKey chain, cci_Labels = [(SECRET_LABEL_ID, secretUID)] \<rparr>"

text \<open>A line of text that is not empty and neither starts nor ends with a byte of a
  space.\<close>

definition trimmedLine :: "string \<Rightarrow> bool" where
  "trimmedLine l =
     (l \<noteq> [] \<and> CHR 0x0A \<notin> set l \<and> hd l \<notin> set (map hd spaceRunes) \<and>
      last l \<notin> set (map last spaceRunes))"

text \<open>How the loop of \<open>EnsureTLS\<close> goes on once the certificate of a host is settled:
  \<open>answer\<close> is the error, or the id of the certificate, that \<open>ensureCertificateForSecret\<close>
  returned for the host, and \<open>calls\<close> are the provider calls made up to then.  On an error
  the loop stops with the error named after the host; on an id it enters the id under the
  host and turns to the remaining hosts.\<close>

definition afterHost ::
  "SSLCertificatesService \<Rightarrow> CryptoLibrary \<Rightarrow> string \<Rightarrow> (string \<times> TLSConfigInfo) list \<Rightarrow>
   (string \<times> string) list \<Rightarrow> tls_call list \<Rightarrow> error + string \<Rightarrow>
   (error + (string \<times> string) list) \<times> tls_call list" where
  "afterHost m lib host rest res calls answer =
     (case answer of
        Inl err \<Rightarrow>
          (Inl (Errorf ''findOrCreate tls for host %q failed: %w'' [S host, W err]), calls)
      | Inr ident \<Rightarrow> ensureTLSLoop m lib rest (AList.update host ident res) calls)"

text \<open>The calls of one pass to the two synchronizers, among its actions.\<close>

definition isEnsureLB :: "action \<Rightarrow> bool" where
  "isEnsureLB a = (case a of CallEnsureLB gwInfo certs res \<Rightarrow> True | _ \<Rightarrow> False)"

definition isEnsureTLSReturned :: "action \<Rightarrow> bool" where
  "isEnsureTLSReturned a = (case a of CallEnsureTLS tlsInfo (Inr certs) \<Rightarrow> True | _ \<Rightarrow> False)"

definition isEnsureTLSFailed :: "action \<Rightarrow> bool" where
  "isEnsureTLSFailed a = (case a of CallEnsureTLS tlsInfo (Inl err) \<Rightarrow> True | _ \<Rightarrow> False)"

text \<open>A run over the actions of a pass that checks the order of the calls: \<open>ok\<close> tells
  whether a call to EnsureTLS has returned without error so far.\<close>

fun tlsThenLB :: "bool \<Rightarrow> action list \<Rightarrow> bool" where
  "tlsThenLB ok [] = True"
| "tlsThenLB ok (a # rest) =
     (if isEnsureLB a then ok \<and> tlsThenLB ok rest
      else if isEnsureTLSReturned a then tlsThenLB True rest
      else tlsThenLB ok rest)"

text \<open>A Gateway of class \<open>sc\<close> with an HTTP listener and an HTTPS listener for
  \<open>example.com\<close> whose certificate is given by an external id; both listeners admit routes
  from all namespaces.\<close>

definition exampleListeners :: "Listener list" where
  "exampleListeners =
     [\<lparr> l_Name = ''http'', l_Hostname = None, l_Port = 80, l_Protocol = ''HTTP'', l_TLS = None,
        l_AllowedRoutes =
          Some \<lparr> ar_Namespaces = Some \<lparr> rn_From = Some ''All'', rn_Selector = None \<rparr> \<rparr> \<rparr>,
      \<lparr> l_Name = ''https'', l_Hostname = Some ''example.com'', l_Port = 443,
        l_Protocol = ''HTTPS'',
        l_TLS = Some \<lparr> tls_Mode = Some ''Terminate'', tls_CertificateRefs = [],
                       tls_Options = [(''sc-certmgr-cert-id'', ''ext-cert-123'')] \<rparr>,
        l_AllowedRoutes =
          Some \<lparr> ar_Namespaces = Some \<lparr> rn_From = Some ''All'', rn_Selector = None \<rparr> \<rparr> \<rparr>]"

definition exampleGateway :: Gateway where
  "exampleGateway =
     \<lparr> gw_UID = ''uid-1'', gw_Name = ''gw'', gw_Namespace = ''infra'', gw_Generation = 1,
       gw_DeletionTimestamp = None, gw_Finalizers = [], gw_GatewayClassName = ''sc'',
       gw_Listeners = exampleListeners, gw_Conditions = [], gw_Addresses = [] \<rparr>"

text \<open>A reconciler that owns the class \<open>sc\<close> and finds that Gateway in the cluster; its
  TLS manager gives the stated answer, its LB manager an active load balancer.\<close>

definition exampleReconciler :: "error + (string \<times> string) list \<Rightarrow> GatewayReconciler" where
  "exampleReconciler tlsAnswer =
     \<lparr> rc_Client = (exampleClient [exampleNode] [])
         \<lparr> getGateway := (\<lambda>ns name. if ns = ''infra'' \<and> name = ''gw'' then Inr exampleGateway
                                     else Inl (StatusNotFound name)),
           getGatewayClass :=
             (\<lambda>name. if name = ''sc''
                      then Inr \<lparr> gc_Name = ''sc'',
                                 gc_ControllerName = ''k8s.srvrscloud.com/gateway-controller'' \<rparr>
                      else Inl (StatusNotFound name)) \<rparr>,
       rc_ControllerName = ''k8s.srvrscloud.com/gateway-controller'',
       rc_GatewayClassName = [],
       rc_LBMgr = \<lparr> lbm_EnsureLB =
                      (\<lambda>gwInfo certs. Inr \<lparr> l7_ID = ''lb-1'', l7_Status = ''active'',
                                            l7_ExternalAddresses = [''203.0.113.10''] \<rparr>),
                    lbm_DeleteLB = (\<lambda>sel. None) \<rparr>,
       rc_TLSMgr = \<lparr> tlsm_EnsureTLS = (\<lambda>tlsInfo. tlsAnswer) \<rparr> \<rparr>"







text \<open>An HTTPRoute for \<open>example.com\<close> in the given namespace and with the given name,
  attached to the Gateway \<open>infra/gw\<close> (to one of its listeners when a section name is given),
  with one rule that sends everything to the Service \<open>web\<close> of its own namespace.\<close>

definition exampleRoute :: "string \<Rightarrow> string \<Rightarrow> string option \<Rightarrow> HTTPRoute" where
  "exampleRoute ns name sectionName =
     \<lparr> rt_Namespace = ns, rt_Name = name,
       rt_ParentRefs = [\<lparr> pr_Group = None, pr_Kind = None, pr_Namespace = Some ''infra'',
                         pr_Name = ''gw'', pr_SectionName = sectionName \<rparr>],
       rt_Hostnames = [''example.com''],
       rt_Rules = [\<lparr> rule_Matches = [], rule_Filters = 0,
                     rule_BackendRefs = [\<lparr> bor_Group = None, bor_Name = ''web'',
                                            bor_Namespace = None, bor_Port = None \<rparr>] \<rparr>] \<rparr>"

definition exampleWeb :: "string \<Rightarrow> Service" where
  "exampleWeb ns = \<lparr> svc_Namespace = ns, svc_Name = ''web'',
                      svc_Ports = [\<lparr> sp_Port = 80, sp_NodePort = 30080 \<rparr>] \<rparr>"

text \<open>A cluster with one node, the given routes and a Service \<open>web\<close> in every namespace.\<close>

definition exampleCluster :: "HTTPRoute list \<Rightarrow> Client" where
  "exampleCluster routes =
     (exampleClient [exampleNode] routes)
       \<lparr> getService := (\<lambda>ns name. if name = ''web'' then Inr (exampleWeb ns)
                                    else Inl (StatusNotFound name)) \<rparr>"

definition examplePath :: "string \<Rightarrow> PathInfo" where
  "examplePath ns = \<lparr> pi_Path = ''/'', pi_Service = exampleWeb ns, pi_NodePort = 30080,
                       pi_NodeIps = [''10.0.0.10''] \<rparr>"


section \<open>Properties\<close>

subsection \<open>hostMatches\<close>

text \<open>C9: an empty listener host matches every route host, every host matches itself,
  the wildcard \<open>*.example.com\<close> matches \<open>sub.example.com\<close> but not the apex
  \<open>example.com\<close>, and two different concrete hosts do not match.\<close>

theorem hostMatches_table:
  "hostMatches [] h = True \<and>
   hostMatches h h = True \<and>
   hostMatches ''*.example.com'' ''sub.example.com'' = True \<and>
   hostMatches ''*.example.com'' ''example.com'' = False \<and>
   hostMatches ''foo.example.com'' ''bar.example.com'' = False"
  by (simp add: hostMatches_def HasPrefix_def HasSuffix_def)

subsection \<open>DeleteLB\<close>

lemma DeleteLB_cases:
  "(CollectLoadBalancers s ''l7'' sel = Inl err \<longrightarrow>
      DeleteLB s sel = (Returns (IgnoreNotFound err), [CallCollect ''l7'' sel])) \<and>
   (CollectLoadBalancers s ''l7'' sel = Inr [] \<longrightarrow>
      DeleteLB s sel =
        (Panics ''runtime error: index out of range [0] with length 0'',
         [CallCollect ''l7'' sel])) \<and>
   (CollectLoadBalancers s ''l7'' sel = Inr [lb] \<longrightarrow>
      DeleteLB s sel =
        (Returns (DeleteL7LoadBalancer s (lb_ID lb)),
         [CallCollect ''l7'' sel, CallDeleteL7 (lb_ID lb)])) \<and>
   (CollectLoadBalancers s ''l7'' sel = Inr lbs \<and> length lbs > 1 \<longrightarrow>
      DeleteLB s sel =
        (Returns (Some (Errorf ''found more than one lb with same label'' [])),
         [CallCollect ''l7'' sel]))"
  by (auto simp: DeleteLB_def getL7LoadBalancersByLabel_def split: list.splits)

text \<open>C1: the claim is that with no load balancer listed for the label \<open>DeleteLB\<close> returns
  success, makes no delete call and neither fails nor crashes.  When the provider answers
  the list with a not-found error this is so (\<open>DeleteLB_cases\<close>), and so are the cases of
  one and of several load balancers.  When the provider answers with an empty list and no
  error, the code reads \<open>lbs[0]\<close> and panics: there is no test for an empty list, which
  \<open>EnsureLB\<close> has.\<close>

theorem DeleteLB_no_load_balancer_panics:
  "DeleteLB (exampleLBService (Inr [])) (GW_LABEL_ID @ ''='' @ ''uid-1'') =
     (Panics ''runtime error: index out of range [0] with length 0'',
      [CallCollect ''l7'' ''k8s.srvrscloud.com/api-gateway-id=uid-1''])"
  by (simp add: DeleteLB_def getL7LoadBalancersByLabel_def exampleLBService_def GW_LABEL_ID_def
      GW_DOMAIN_def)

subsection \<open>getNodesIpList\<close>

lemma nodeAddress_find:
  "nodeAddress addrs = map_option na_Address (find usableAddress addrs)"
  by (induction addrs) (simp_all add: usableAddress_def NodeExternalIP_def NodeInternalIP_def)

lemma nodesLoop_map_filter:
  "nodesLoop nodes acc =
     acc @ List.map_filter
             (\<lambda>node. map_option na_Address (find usableAddress (node_Addresses node))) nodes"
  by (induction nodes arbitrary: acc)
     (simp_all add: List.map_filter_simps nodeAddress_find split: option.splits)

text \<open>C4, as the code has it: the address collected for a node is the first one in the
  node's address list whose type is ExternalIP or InternalIP, whichever of the two comes
  first; a node with no such address contributes nothing.  The list keeps the order of the
  nodes.\<close>

theorem getNodesIpList_first_usable_address:
  "listNodes r = Inr nodes \<Longrightarrow>
   getNodesIpList r =
     Inr (List.map_filter
            (\<lambda>node. map_option na_Address (find usableAddress (node_Addresses node))) nodes)"
  by (simp add: getNodesIpList_def nodesLoop_map_filter)

theorem getNodesIpList_first_usable_address_witness:
  "listNodes (exampleClient [exampleNode] []) = Inr [exampleNode] \<and>
   getNodesIpList (exampleClient [exampleNode] []) = Inr [''10.0.0.10'']"
  using getNodesIpList_first_usable_address [of "exampleClient [exampleNode] []" "[exampleNode]"]
  by (simp add: exampleClient_def exampleNode_def List.map_filter_simps usableAddress_def)

text \<open>C4 as stated fails: this node has an external address, listed after its internal
  one, and the internal address is collected.\<close>

theorem getNodesIpList_internal_before_external:
  "\<lparr> na_Type = NodeExternalIP, na_Address = ''203.0.113.7'' \<rparr> \<in> set (node_Addresses exampleNode) \<and>
   getNodesIpList (exampleClient [exampleNode] []) = Inr [''10.0.0.10'']"
  by (simp add: getNodesIpList_def exampleClient_def exampleNode_def NodeExternalIP_def
      NodeInternalIP_def)

subsection \<open>Certificates of one secret\<close>

lemma find_holds: "find P xs = Some x \<Longrightarrow> P x"
  by (induction xs) (auto split: if_splits)

lemma firstWithFingerprint_find:
  "firstWithFingerprint certs fp = find (\<lambda>c. cert_Sha1Fingerprint c = fp) certs"
  by (induction certs) simp_all

lemma findCertificate_listed:
  "CollectCertificates m (SECRET_LABEL_ID @ ''='' @ secretUID) ''custom'' = Inr certs \<Longrightarrow>
   findCertificate m fingerprint secretUID =
     (Inr (case find (\<lambda>c. cert_Sha1Fingerprint c = fingerprint) certs of
             Some c \<Rightarrow> Some c
           | None \<Rightarrow> (case certs of c # _ \<Rightarrow> Some c | [] \<Rightarrow> None)),
      [CallCollectCertificates (SECRET_LABEL_ID @ ''='' @ secretUID) ''custom''])"
  by (simp add: findCertificate_def firstWithFingerprint_find split: option.splits list.splits)

text \<open>C5, as the code has it: when the provider lists more than one certificate for the
  secret's UID, the synchronization does not fail on that account.  It reuses the first
  listed certificate whose fingerprint is the computed one, with no further call; if none
  has that fingerprint it updates the first listed certificate in place (or creates a new
  one when that certificate has an empty id), and returns what the provider answers.\<close>

theorem ensureCertificateForSecret_several_certificates:
  "CollectCertificates m (SECRET_LABEL_ID @ ''='' @ secretUID) ''custom'' = Inr (c0 # c1 # rest) \<Longrightarrow>
   ensureCertificateForSecret m fingerprint secretUID cert key chain =
     (case find (\<lambda>c. cert_Sha1Fingerprint c = fingerprint) (c0 # c1 # rest) of
        Some c \<Rightarrow>
          (Inr c, [CallCollectCertificates (SECRET_LABEL_ID @ ''='' @ secretUID) ''custom''])
      | None \<Rightarrow>
          if cert_ID c0 \<noteq> [] then
            (map_sum id customToSSLCertificate
               (UpdateCustom m (cert_ID c0)
                  \<lparr> uci_PublicKey = cert, uci_PrivateKey = key, uci_ChainKey = chainKey chain \<rparr>),
             [CallCollectCertificates (SECRET_LABEL_ID @ ''='' @ secretUID) ''custom'',
              CallUpdateCustom (cert_ID c0)
                \<lparr> uci_PublicKey = cert, uci_PrivateKey = key, uci_ChainKey = chainKey chain \<rparr>])
          else
            (map_sum id customToSSLCertificate
               (CreateCustom m
                  \<lparr> cci_Name = ''gw-secret-'' @ secretUID, cci_PublicKey = cert,
                    cci_PrivateKey = key, cci_ChainKey = chainKey chain,
                    cci_Labels = [(SECRET_LABEL_ID, secretUID)] \<rparr>),
             [CallCollectCertificates (SECRET_LABEL_ID @ ''='' @ secretUID) ''custom'',
              CallCreateCustom
                \<lparr> cci_Name = ''gw-secret-'' @ secretUID, cci_PublicKey = cert,
                  cci_PrivateKey = key, cci_ChainKey = chainKey chain,
                  cci_Labels = [(SECRET_LABEL_ID, secretUID)] \<rparr>]))"
proof -
  assume listed:
    "CollectCertificates m (SECRET_LABEL_ID @ ''='' @ secretUID) ''custom'' = Inr (c0 # c1 # rest)"
  show ?thesis
  proof (cases "find (\<lambda>c. cert_Sha1Fingerprint c = fingerprint) (c0 # c1 # rest)")
    case None
    then have "findCertificate m fingerprint secretUID =
        (Inr (Some c0), [CallCollectCertificates (SECRET_LABEL_ID @ ''='' @ secretUID) ''custom''])"
      using listed by (simp add: findCertificate_listed del: find.simps)
    moreover have "cert_Sha1Fingerprint c0 \<noteq> fingerprint"
      using None by (simp split: if_splits)
    ultimately show ?thesis
      using None
      by (simp add: ensureCertificateForSecret_def updateCertificateForSecret_def
          createCertificateForSecret_def map_sum_def del: find.simps split: sum.splits)
  next
    case (Some c)
    then have "findCertificate m fingerprint secretUID =
        (Inr (Some c), [CallCollectCertificates (SECRET_LABEL_ID @ ''='' @ secretUID) ''custom''])"
      using listed by (simp add: findCertificate_listed del: find.simps)
    moreover have "cert_Sha1Fingerprint c = fingerprint"
      using Some by (rule find_holds)
    ultimately show ?thesis
      using Some by (simp add: ensureCertificateForSecret_def del: find.simps)
  qed
qed

theorem ensureCertificateForSecret_several_certificates_witness:
  "ensureCertificateForSecret
     (exampleCertService (Inr [exampleCert ''cert-a'' ''aa'', exampleCert ''cert-b'' ''bb'']))
     ''cc'' ''uid-s'' ''LEAF'' ''KEY'' [] =
   (Inr \<lparr> cert_ID = ''cert-a'', cert_Name = ''gw-secret'', cert_Sha1Fingerprint = ''sha1:LEAF'',
          cert_Labels = [] \<rparr>,
    [CallCollectCertificates ''k8s.srvrscloud.com/api-secret-id=uid-s'' ''custom'',
     CallUpdateCustom ''cert-a''
       \<lparr> uci_PublicKey = ''LEAF'', uci_PrivateKey = ''KEY'', uci_ChainKey = [] \<rparr>])"
  using ensureCertificateForSecret_several_certificates
    [of "exampleCertService (Inr [exampleCert ''cert-a'' ''aa'', exampleCert ''cert-b'' ''bb''])"
        "''uid-s''" "exampleCert ''cert-a'' ''aa''" "exampleCert ''cert-b'' ''bb''" "[]"
        "''cc''" "''LEAF''" "''KEY''" "[]"]
  by (simp add: exampleCertService_def exampleCert_def SECRET_LABEL_ID_def GW_DOMAIN_def
      customToSSLCertificate_def chainKey_def)

text \<open>C5 as stated fails: the provider holds two certificates labelled with the secret's
  UID, and the synchronization returns the second of them (its fingerprint is the computed
  one) without an error.\<close>

theorem ensureCertificateForSecret_two_certificates_reuses_one:
  "ensureCertificateForSecret
     (exampleCertService (Inr [exampleCert ''cert-a'' ''aa'', exampleCert ''cert-b'' ''bb'']))
     ''bb'' ''uid-s'' ''LEAF'' ''KEY'' [] =
   (Inr (exampleCert ''cert-b'' ''bb''),
    [CallCollectCertificates ''k8s.srvrscloud.com/api-secret-id=uid-s'' ''custom''])"
  by (simp add: ensureCertificateForSecret_def findCertificate_def exampleCertService_def
      exampleCert_def SECRET_LABEL_ID_def GW_DOMAIN_def)

subsection \<open>EnsureLB\<close>

text \<open>An order of range holds the entries it is given, as many as there are.\<close>

lemma rangeOrder_entries:
  "length (rangeOrder picks xs) = length xs \<and> set (rangeOrder picks xs) = set xs"
proof (induction picks xs rule: rangeOrder.induct)
  case (1 picks)
  then show ?case by simp
next
  case (2 x xs)
  then show ?case by simp
next
  case (3 k picks x xs)
  let ?ys = "x # xs"
  let ?i = "k mod length ?ys"
  have i: "?i < length ?ys" by simp
  from id_take_nth_drop [OF i]
  have ys: "?ys = take ?i ?ys @ ?ys ! ?i # drop (Suc ?i) ?ys" .
  have "set ?ys = set (take ?i ?ys @ ?ys ! ?i # drop (Suc ?i) ?ys)"
    using ys by simp
  then have s: "set ?ys = insert (?ys ! ?i) (set (take ?i ?ys @ drop (Suc ?i) ?ys))"
    by simp
  have "length ?ys = length (take ?i ?ys @ ?ys ! ?i # drop (Suc ?i) ?ys)"
    using ys by simp
  then have l: "length ?ys = Suc (length (take ?i ?ys @ drop (Suc ?i) ?ys))"
    by simp
  from 3 [OF refl] have
    "length (rangeOrder picks (take ?i ?ys @ drop (Suc ?i) ?ys)) =
       length (take ?i ?ys @ drop (Suc ?i) ?ys)"
    "set (rangeOrder picks (take ?i ?ys @ drop (Suc ?i) ?ys)) =
       set (take ?i ?ys @ drop (Suc ?i) ?ys)"
    by simp_all
  with s l show ?case
    by (simp only: rangeOrder.simps Let_def list.size length_Cons list.set) simp
qed

text \<open>C6, as the code has it.  With the load balancers listed for the Gateway's UID:
  none listed: the topology is translated and, if the translation succeeds, create is called
  with the translated input (if it fails, its error is returned and nothing is called);
  exactly one, with status \<open>active\<close> up to case: likewise a full update on its id;
  exactly one, with another status: neither create nor update, and the result carries only
  that status; more than one: an error, and neither call.\<close>

theorem EnsureLB_cases:
  "CollectLoadBalancers s ''l7'' (GW_LABEL_ID @ ''='' @ gi_UID gwInfo) = Inr lbs \<Longrightarrow>
   (lbs = [] \<longrightarrow>
      EnsureLB s locIdStr picks gwInfo hostCertMap =
        (case translateGatewayToLBInput locIdStr picks gwInfo hostCertMap of
           Inl err \<Rightarrow> (Inl err, [CallCollect ''l7'' (GW_LABEL_ID @ ''='' @ gi_UID gwInfo)])
         | Inr lbInput \<Rightarrow>
             (CreateL7LoadBalancer s lbInput,
              [CallCollect ''l7'' (GW_LABEL_ID @ ''='' @ gi_UID gwInfo), CallCreateL7 lbInput]))) \<and>
   (\<forall>lb. lbs = [lb] \<and> EqualFold (lb_Status lb) ''active'' \<longrightarrow>
      EnsureLB s locIdStr picks gwInfo hostCertMap =
        (case translateGatewayToLBInput locIdStr picks gwInfo hostCertMap of
           Inl err \<Rightarrow> (Inl err, [CallCollect ''l7'' (GW_LABEL_ID @ ''='' @ gi_UID gwInfo)])
         | Inr lbInput \<Rightarrow>
             (UpdateL7LoadBalancer s (lb_ID lb) (updateInputOf lbInput),
              [CallCollect ''l7'' (GW_LABEL_ID @ ''='' @ gi_UID gwInfo),
               CallUpdateL7 (lb_ID lb) (updateInputOf lbInput)]))) \<and>
   (\<forall>lb. lbs = [lb] \<and> \<not> EqualFold (lb_Status lb) ''active'' \<longrightarrow>
      EnsureLB s locIdStr picks gwInfo hostCertMap =
        (Inr \<lparr> l7_ID = [], l7_Status = lb_Status lb, l7_ExternalAddresses = [] \<rparr>,
         [CallCollect ''l7'' (GW_LABEL_ID @ ''='' @ gi_UID gwInfo)])) \<and>
   (length lbs > 1 \<longrightarrow>
      EnsureLB s locIdStr picks gwInfo hostCertMap =
        (Inl (Errorf ''found more than one lb with same label'' []),
         [CallCollect ''l7'' (GW_LABEL_ID @ ''='' @ gi_UID gwInfo)]))"
  by (auto simp: EnsureLB_def getL7LoadBalancersByLabel_def updateInputOf_def LB_ACTIVE_STATUS_def Let_def
      split: list.splits sum.splits)

theorem EnsureLB_cases_witness:
  "EnsureLB (exampleLBService (Inr [])) ''1'' [] exampleGatewayInfo [(''example.com'', ''cert-id'')] =
     (Inr \<lparr> l7_ID = ''lb-new'', l7_Status = ''pending'', l7_ExternalAddresses = [] \<rparr>,
      [CallCollect ''l7'' ''k8s.srvrscloud.com/api-gateway-id=gw-uid'',
       CallCreateL7 exampleLBInput]) \<and>
   EnsureLB (exampleLBService (Inr [\<lparr> lb_ID = ''lb1'', lb_Status = ''Active'' \<rparr>])) ''1'' []
       exampleGatewayInfo [(''example.com'', ''cert-id'')] =
     (Inr \<lparr> l7_ID = ''lb1'', l7_Status = ''active'', l7_ExternalAddresses = [''203.0.113.10''] \<rparr>,
      [CallCollect ''l7'' ''k8s.srvrscloud.com/api-gateway-id=gw-uid'',
       CallUpdateL7 ''lb1'' (updateInputOf exampleLBInput)]) \<and>
   EnsureLB (exampleLBService (Inr [\<lparr> lb_ID = ''lb1'', lb_Status = ''pending'' \<rparr>])) ''1'' []
       exampleGatewayInfo [(''example.com'', ''cert-id'')] =
     (Inr \<lparr> l7_ID = [], l7_Status = ''pending'', l7_ExternalAddresses = [] \<rparr>,
      [CallCollect ''l7'' ''k8s.srvrscloud.com/api-gateway-id=gw-uid'']) \<and>
   EnsureLB (exampleLBService (Inr [\<lparr> lb_ID = ''lb1'', lb_Status = ''active'' \<rparr>,
                                     \<lparr> lb_ID = ''lb2'', lb_Status = ''active'' \<rparr>])) ''1'' []
       exampleGatewayInfo [(''example.com'', ''cert-id'')] =
     (Inl (Errorf ''found more than one lb with same label'' []),
      [CallCollect ''l7'' ''k8s.srvrscloud.com/api-gateway-id=gw-uid''])"
proof -
  have tr: "translateGatewayToLBInput ''1'' [] exampleGatewayInfo [(''example.com'', ''cert-id'')] =
      Inr exampleLBInput"
    by (simp add: translateGatewayToLBInput_def exampleGatewayInfo_def exampleService_def
        exampleLBInput_def Atoi_def isDigit_def digitVal_def itoa_def decimal.simps digitChar_def
        to_int32_def getLoadBalancerName_def GW_LABEL_ID_def GW_DOMAIN_def Let_def)
  have uid: "GW_LABEL_ID @ CHR ''='' # gi_UID exampleGatewayInfo =
      ''k8s.srvrscloud.com/api-gateway-id=gw-uid''"
    by (simp add: exampleGatewayInfo_def GW_LABEL_ID_def GW_DOMAIN_def)
  have sel: "\<And>x t l. CollectLoadBalancers (exampleLBService x) t l = x"
    "\<And>x i. CreateL7LoadBalancer (exampleLBService x) i =
       Inr \<lparr> l7_ID = ''lb-new'', l7_Status = ''pending'', l7_ExternalAddresses = [] \<rparr>"
    "\<And>x i u. UpdateL7LoadBalancer (exampleLBService x) i u =
       Inr \<lparr> l7_ID = i, l7_Status = ''active'', l7_ExternalAddresses = [''203.0.113.10''] \<rparr>"
    by (simp_all add: exampleLBService_def)
  show ?thesis
    using
      EnsureLB_cases [of "exampleLBService (Inr [])" exampleGatewayInfo "[]" "''1''" "[]"
        "[(''example.com'', ''cert-id'')]"]
      EnsureLB_cases [of "exampleLBService (Inr [\<lparr> lb_ID = ''lb1'', lb_Status = ''Active'' \<rparr>])"
        exampleGatewayInfo "[\<lparr> lb_ID = ''lb1'', lb_Status = ''Active'' \<rparr>]" "''1''" "[]"
        "[(''example.com'', ''cert-id'')]"]
      EnsureLB_cases [of "exampleLBService (Inr [\<lparr> lb_ID = ''lb1'', lb_Status = ''pending'' \<rparr>])"
        exampleGatewayInfo "[\<lparr> lb_ID = ''lb1'', lb_Status = ''pending'' \<rparr>]" "''1''" "[]"
        "[(''example.com'', ''cert-id'')]"]
      EnsureLB_cases [of "exampleLBService (Inr [\<lparr> lb_ID = ''lb1'', lb_Status = ''active'' \<rparr>,
                                     \<lparr> lb_ID = ''lb2'', lb_Status = ''active'' \<rparr>])"
        exampleGatewayInfo "[\<lparr> lb_ID = ''lb1'', lb_Status = ''active'' \<rparr>,
                                     \<lparr> lb_ID = ''lb2'', lb_Status = ''active'' \<rparr>]" "''1''" "[]"
        "[(''example.com'', ''cert-id'')]"]
    by (simp add: tr uid sel EqualFold_def asciiLower_def)
qed

text \<open>C6 as stated fails: no load balancer exists for the Gateway, the topology has no
  virtual host, and create is not called; the translation error is returned.\<close>

theorem EnsureLB_empty_topology_no_create:
  "EnsureLB (exampleLBService (Inr [])) ''1'' [] emptyGatewayInfo [] =
     (Inl (Errorf ''vhost or upstream can't be empty, can't continue'' []),
      [CallCollect ''l7'' ''k8s.srvrscloud.com/api-gateway-id=gw-uid''])"
  by (simp add: EnsureLB_def getL7LoadBalancersByLabel_def exampleLBService_def
      emptyGatewayInfo_def translateGatewayToLBInput_def GW_LABEL_ID_def GW_DOMAIN_def)

subsection \<open>Lines of text and the certificate helpers\<close>

lemma Split_line: "sep \<notin> set l \<Longrightarrow> Split (l @ sep # rest) sep = l # Split rest sep"
  by (induction l) auto

lemma Split_last_line: "sep \<notin> set l \<Longrightarrow> Split l sep = [l]"
  by (induction l) auto

lemma Split_Join:
  "ls \<noteq> [] \<Longrightarrow> \<forall>l \<in> set ls. sep \<notin> set l \<Longrightarrow>
   Split (Join ls sep @ rest) sep =
     butlast ls @ (case Split (last ls @ rest) sep of l # ls' \<Rightarrow> l # ls' | [] \<Rightarrow> [])"
proof (induction ls sep rule: Join.induct)
  case (1 sep)
  then show ?case by simp
next
  case (2 l sep)
  then show ?case by (simp split: list.splits)
next
  case (3 l l' ls sep)
  then show ?case by (simp add: Split_line)
qed

lemma HasPrefix_first: "HasPrefix s (c # w) \<Longrightarrow> s \<noteq> [] \<and> hd s = c"
  by (cases s) (auto simp: HasPrefix_def)

lemma HasSuffix_last: "HasSuffix s w \<Longrightarrow> w \<noteq> [] \<Longrightarrow> s \<noteq> [] \<and> last s = last w"
proof -
  assume a: "HasSuffix s w" and w: "w \<noteq> []"
  then have d: "drop (length s - length w) s = w" and le: "length w \<le> length s"
    by (simp_all add: HasSuffix_def)
  from w le have s: "s \<noteq> []" by auto
  from w d have "drop (length s - length w) s \<noteq> []" by simp
  then have "last (drop (length s - length w) s) = last s"
    by (simp add: last_drop)
  with d s show ?thesis by simp
qed

lemma spaceRunes_nonempty: "w \<in> set spaceRunes \<Longrightarrow> w \<noteq> []"
  by (auto simp: spaceRunes_def)

lemma spaceAtStart_none:
  "s \<noteq> [] \<Longrightarrow> hd s \<notin> hd ` set spaceRunes \<Longrightarrow> spaceAtStart s = 0"
proof -
  assume s: "s \<noteq> []" and h: "hd s \<notin> hd ` set spaceRunes"
  have "\<not> HasPrefix s w" if "w \<in> set spaceRunes" for w
  proof
    assume p: "HasPrefix s w"
    from that have "w \<noteq> []" by (rule spaceRunes_nonempty)
    then obtain c w' where w: "w = c # w'" by (cases w) auto
    with p have "hd s = hd w" by (auto dest: HasPrefix_first)
    with that h show False by auto
  qed
  then have "find (HasPrefix s) spaceRunes = None"
    by (simp add: find_None_iff)
  then show ?thesis by (simp add: spaceAtStart_def)
qed

lemma spaceAtEnd_none:
  "s \<noteq> [] \<Longrightarrow> last s \<notin> last ` set spaceRunes \<Longrightarrow> spaceAtEnd s = 0"
proof -
  assume s: "s \<noteq> []" and h: "last s \<notin> last ` set spaceRunes"
  have "\<not> HasSuffix s w" if "w \<in> set spaceRunes" for w
  proof
    assume p: "HasSuffix s w"
    from that have "w \<noteq> []" by (rule spaceRunes_nonempty)
    with p have "last s = last w" by (auto dest: HasSuffix_last)
    with that h show False by auto
  qed
  then have "find (HasSuffix s) spaceRunes = None"
    by (simp add: find_None_iff)
  then show ?thesis by (simp add: spaceAtEnd_def)
qed

lemma TrimSpace_trimmedLine: "trimmedLine l \<Longrightarrow> TrimSpace l = l"
  by (simp add: trimmedLine_def TrimSpace_def TrimLeftSpace.simps TrimRightSpace.simps
      spaceAtStart_none spaceAtEnd_none)

lemma TrimSpace_Nil: "TrimSpace [] = []"
  by (simp add: TrimSpace_def TrimLeftSpace.simps TrimRightSpace.simps spaceAtStart_def
      spaceAtEnd_def spaceRunes_def HasPrefix_def HasSuffix_def)

lemma stripSpaces_trimmed_lines:
  assumes "ls \<noteq> []" and "list_all trimmedLine ls"
  shows "stripSpaces (Join ls (CHR 0x0A)) = Join ls (CHR 0x0A)"
    and "stripSpaces (Join ls (CHR 0x0A) @ [CHR 0x0A]) = Join ls (CHR 0x0A)"
    and "Split (Join ls (CHR 0x0A)) (CHR 0x0A) = ls"
proof -
  from assms(2) have nosep: "\<forall>l \<in> set ls. CHR 0x0A \<notin> set l"
    and trim: "map TrimSpace ls = ls" and nonempty: "filter (\<lambda>l. l \<noteq> []) ls = ls"
    by (auto simp: list_all_iff trimmedLine_def TrimSpace_trimmedLine intro: map_idI)
  from assms(1) nosep have "CHR 0x0A \<notin> set (last ls)" by simp
  then have l1: "Split (last ls) (CHR 0x0A) = [last ls]"
    and l2: "Split (last ls @ [CHR 0x0A]) (CHR 0x0A) = [last ls, []]"
    by (simp_all add: Split_last_line Split_line)
  from Split_Join [OF assms(1) nosep, of "[]"] l1 assms(1)
  show s1: "Split (Join ls (CHR 0x0A)) (CHR 0x0A) = ls" by simp
  from Split_Join [OF assms(1) nosep, of "[CHR 0x0A]"] l2 assms(1)
  have s2: "Split (Join ls (CHR 0x0A) @ [CHR 0x0A]) (CHR 0x0A) = ls @ [[]]" by simp
  show "stripSpaces (Join ls (CHR 0x0A)) = Join ls (CHR 0x0A)"
    by (simp add: stripSpaces_def s1 trim nonempty)
  show "stripSpaces (Join ls (CHR 0x0A) @ [CHR 0x0A]) = Join ls (CHR 0x0A)"
    by (simp add: stripSpaces_def s2 trim nonempty TrimSpace_Nil)
qed

lemma exampleLines_trimmed: "list_all trimmedLine exampleLines"
  by (simp add: exampleLines_def trimmedLine_def spaceRunes_def)

lemma splitCertsLoop_example: "splitCertsLoop exampleLines [] [] False 0 = (exampleLines, [])"
proof -
  have t: "\<And>l. l \<in> set exampleLines \<Longrightarrow> TrimSpace l = l"
    using exampleLines_trimmed by (simp add: list_all_iff TrimSpace_trimmedLine)
  have "\<forall>l \<in> set exampleLines. TrimSpace l = l" using t by blast
  then show ?thesis
    by (simp add: exampleLines_def HasPrefix_def)
qed

lemma splitCerts_example:
  "splitCerts (examplePrimary @ [CHR 0x0A]) = (Some examplePrimary, None)"
proof -
  have ne: "exampleLines \<noteq> []" by (simp add: exampleLines_def)
  show ?thesis
    by (simp add: splitCerts_def examplePrimary_def
        stripSpaces_trimmed_lines [OF ne exampleLines_trimmed] splitCertsLoop_example ne)
qed

lemma stripSpaces_example: "stripSpaces examplePrimary = examplePrimary"
  using stripSpaces_trimmed_lines(1) [OF _ exampleLines_trimmed]
  by (simp add: examplePrimary_def exampleLines_def)

lemma validateCertificate_example:
  "validateCertificate exampleCrypto (examplePrimary @ [CHR 0x0A]) = None"
  by (simp add: validateCertificate_def splitCerts_example exampleCrypto_def)

lemma getPemFingerprint_example:
  "getPemFingerprint exampleCrypto examplePrimary = exampleFingerprint"
  by (simp add: getPemFingerprint_def stripSpaces_example findCertificate_der_def
      exampleCrypto_def)

subsection \<open>EnsureTLS for a host backed by a secret\<close>

lemma ensureTLSLoop_secret_host:
  "ti_ExternalID info = [] \<Longrightarrow> ti_Secret info = Some secret \<Longrightarrow>
   map_of (sec_Data secret) TLSCertKey = Some certPEM \<Longrightarrow>
   map_of (sec_Data secret) TLSPrivateKeyKey = Some keyPEM \<Longrightarrow>
   validateCertificate lib certPEM = None \<Longrightarrow>
   splitCerts certPEM = (primary, chain) \<Longrightarrow>
   ensureTLSLoop m lib ((host, info) # rest) res calls =
     (case ensureCertificateForSecret m (getPemFingerprint lib (bytesOf primary)) (sec_UID secret)
             (bytesOf primary) keyPEM (bytesOf chain) of
        (answer, cs) \<Rightarrow>
          afterHost m lib host rest res (calls @ cs) (map_sum id cert_ID answer))"
  by (simp add: afterHost_def split: prod.splits sum.splits)

lemma ensureCertificateForSecret_listed:
  "CollectCertificates m (SECRET_LABEL_ID @ ''='' @ secretUID) ''custom'' = Inr certs \<Longrightarrow>
   ensureCertificateForSecret m fingerprint secretUID cert key chain =
     (case find (\<lambda>c. cert_Sha1Fingerprint c = fingerprint) certs of
        Some c \<Rightarrow>
          (Inr c, [CallCollectCertificates (SECRET_LABEL_ID @ ''='' @ secretUID) ''custom''])
      | None \<Rightarrow>
          (case certs of
             c0 # _ \<Rightarrow>
               if cert_ID c0 \<noteq> [] then
                 (map_sum id customToSSLCertificate
                    (UpdateCustom m (cert_ID c0) (certUpdateInput cert key chain)),
                  [CallCollectCertificates (SECRET_LABEL_ID @ ''='' @ secretUID) ''custom'',
                   CallUpdateCustom (cert_ID c0) (certUpdateInput cert key chain)])
               else
                 (map_sum id customToSSLCertificate
                    (CreateCustom m (certCreateInput secretUID cert key chain)),
                  [CallCollectCertificates (SECRET_LABEL_ID @ ''='' @ secretUID) ''custom'',
                   CallCreateCustom (certCreateInput secretUID cert key chain)])
           | [] \<Rightarrow>
               (map_sum id customToSSLCertificate
                  (CreateCustom m (certCreateInput secretUID cert key chain)),
                [CallCollectCertificates (SECRET_LABEL_ID @ ''='' @ secretUID) ''custom'',
                 CallCreateCustom (certCreateInput secretUID cert key chain)])))"
proof -
  assume listed:
    "CollectCertificates m (SECRET_LABEL_ID @ ''='' @ secretUID) ''custom'' = Inr certs"
  show ?thesis
  proof (cases "find (\<lambda>c. cert_Sha1Fingerprint c = fingerprint) certs")
    case None
    show ?thesis
    proof (cases certs)
      case Nil
      then show ?thesis
        using listed
        by (simp add: ensureCertificateForSecret_def findCertificate_listed
            createCertificateForSecret_def certCreateInput_def map_sum_def split: sum.splits)
    next
      case (Cons c0 rest)
      then have "cert_Sha1Fingerprint c0 \<noteq> fingerprint"
        using None by (simp split: if_splits)
      then show ?thesis
        using None Cons listed
        by (simp add: ensureCertificateForSecret_def findCertificate_listed
            updateCertificateForSecret_def createCertificateForSecret_def certUpdateInput_def
            certCreateInput_def map_sum_def
            del: find.simps split: sum.splits)
    qed
  next
    case (Some c)
    moreover have "cert_Sha1Fingerprint c = fingerprint"
      using Some by (rule find_holds)
    ultimately show ?thesis
      using listed
      by (simp add: ensureCertificateForSecret_def findCertificate_listed del: find.simps)
  qed
qed

lemma ensureCertificateForSecret_list_error:
  "CollectCertificates m (SECRET_LABEL_ID @ ''='' @ secretUID) ''custom'' = Inl err \<Longrightarrow>
   ensureCertificateForSecret m fingerprint secretUID cert key chain =
     (if As_NotFoundError err then
        (map_sum id customToSSLCertificate
           (CreateCustom m (certCreateInput secretUID cert key chain)),
         [CallCollectCertificates (SECRET_LABEL_ID @ ''='' @ secretUID) ''custom'',
          CallCreateCustom (certCreateInput secretUID cert key chain)])
      else (Inl err, [CallCollectCertificates (SECRET_LABEL_ID @ ''='' @ secretUID) ''custom'']))"
  by (simp add: ensureCertificateForSecret_def findCertificate_def IgnoreNotFound_def
      createCertificateForSecret_def certCreateInput_def map_sum_def split: sum.splits)

lemma cert_ID_of_answer:
  "map_sum id cert_ID (map_sum id customToSSLCertificate answer) = map_sum id custom_ID answer"
  by (cases answer) (simp_all add: customToSSLCertificate_def)

text \<open>C7, as the code has it.  \<open>EnsureTLS\<close> comes to a host backed by a secret (no external
  id), with any hosts before it and after it.  If the secret has no \<open>tls.crt\<close> or no
  \<open>tls.key\<close>, or its certificate does not pass validation, the error is returned and no
  provider call is made for the host.  Otherwise, \<open>fp\<close> being the fingerprint of the leaf and
  the provider's list being taken by the label of the secret's UID: if a listed certificate
  has fingerprint \<open>fp\<close>, the host gets the id of the first such one and nothing but the list
  call is made; if certificates are listed and none has fingerprint \<open>fp\<close>, an update is
  called on the id of the first listed one, provided that id is not empty, and a create is
  called when it is empty; if none is listed, or the list call answers not-found, a
  certificate labelled with the secret's UID is created; any other error of the list call is
  returned with no further call.\<close>

theorem EnsureTLS_secret_host_cases:
  assumes "ti_ExternalID info = []" and "ti_Secret info = Some secret"
    and "sel = SECRET_LABEL_ID @ ''='' @ sec_UID secret"
  shows
   "(map_of (sec_Data secret) TLSCertKey = None \<longrightarrow>
      ensureTLSLoop m lib ((host, info) # rest) res calls =
        (Inl (Errorf ''secret for host %q has no tls.crt'' [S host]), calls)) \<and>
    (\<forall>certPEM. map_of (sec_Data secret) TLSCertKey = Some certPEM \<and>
        map_of (sec_Data secret) TLSPrivateKeyKey = None \<longrightarrow>
      ensureTLSLoop m lib ((host, info) # rest) res calls =
        (Inl (Errorf ''secret for host %q has no tls.key'' [S host]), calls)) \<and>
    (\<forall>certPEM keyPEM err. map_of (sec_Data secret) TLSCertKey = Some certPEM \<and>
        map_of (sec_Data secret) TLSPrivateKeyKey = Some keyPEM \<and>
        validateCertificate lib certPEM = Some err \<longrightarrow>
      ensureTLSLoop m lib ((host, info) # rest) res calls =
        (Inl (Errorf ''invalid certificate for host %q: %w'' [S host, W err]), calls)) \<and>
    (\<forall>certPEM keyPEM primary chain fp.
        map_of (sec_Data secret) TLSCertKey = Some certPEM \<and>
        map_of (sec_Data secret) TLSPrivateKeyKey = Some keyPEM \<and>
        validateCertificate lib certPEM = None \<and>
        splitCerts certPEM = (primary, chain) \<and>
        fp = getPemFingerprint lib (bytesOf primary) \<longrightarrow>
      (\<forall>certs c. CollectCertificates m sel ''custom'' = Inr certs \<and>
          find (\<lambda>c. cert_Sha1Fingerprint c = fp) certs = Some c \<longrightarrow>
        ensureTLSLoop m lib ((host, info) # rest) res calls =
          afterHost m lib host rest res (calls @ [CallCollectCertificates sel ''custom''])
            (Inr (cert_ID c))) \<and>
      (\<forall>c0 others. CollectCertificates m sel ''custom'' = Inr (c0 # others) \<and>
          find (\<lambda>c. cert_Sha1Fingerprint c = fp) (c0 # others) = None \<and> cert_ID c0 \<noteq> [] \<longrightarrow>
        ensureTLSLoop m lib ((host, info) # rest) res calls =
          afterHost m lib host rest res
            (calls @
             [CallCollectCertificates sel ''custom'',
              CallUpdateCustom (cert_ID c0)
                (certUpdateInput (bytesOf primary) keyPEM (bytesOf chain))])
            (map_sum id custom_ID
               (UpdateCustom m (cert_ID c0)
                  (certUpdateInput (bytesOf primary) keyPEM (bytesOf chain))))) \<and>
      (\<forall>c0 others. CollectCertificates m sel ''custom'' = Inr (c0 # others) \<and>
          find (\<lambda>c. cert_Sha1Fingerprint c = fp) (c0 # others) = None \<and> cert_ID c0 = [] \<longrightarrow>
        ensureTLSLoop m lib ((host, info) # rest) res calls =
          afterHost m lib host rest res
            (calls @
             [CallCollectCertificates sel ''custom'',
              CallCreateCustom
                (certCreateInput (sec_UID secret) (bytesOf primary) keyPEM (bytesOf chain))])
            (map_sum id custom_ID
               (CreateCustom m
                  (certCreateInput (sec_UID secret) (bytesOf primary) keyPEM (bytesOf chain))))) \<and>
      (CollectCertificates m sel ''custom'' = Inr [] \<or>
       (\<exists>err. CollectCertificates m sel ''custom'' = Inl err \<and> As_NotFoundError err) \<longrightarrow>
        ensureTLSLoop m lib ((host, info) # rest) res calls =
          afterHost m lib host rest res
            (calls @
             [CallCollectCertificates sel ''custom'',
              CallCreateCustom
                (certCreateInput (sec_UID secret) (bytesOf primary) keyPEM (bytesOf chain))])
            (map_sum id custom_ID
               (CreateCustom m
                  (certCreateInput (sec_UID secret) (bytesOf primary) keyPEM (bytesOf chain))))) \<and>
      (\<forall>err. CollectCertificates m sel ''custom'' = Inl err \<and> \<not> As_NotFoundError err \<longrightarrow>
        ensureTLSLoop m lib ((host, info) # rest) res calls =
          afterHost m lib host rest res (calls @ [CallCollectCertificates sel ''custom''])
            (Inl err)))"
proof (intro conjI allI impI)
  assume "map_of (sec_Data secret) TLSCertKey = None"
  with assms(1,2)
  show "ensureTLSLoop m lib ((host, info) # rest) res calls =
        (Inl (Errorf ''secret for host %q has no tls.crt'' [S host]), calls)"
    by simp
next
  fix certPEM
  assume "map_of (sec_Data secret) TLSCertKey = Some certPEM \<and>
        map_of (sec_Data secret) TLSPrivateKeyKey = None"
  with assms(1,2)
  show "ensureTLSLoop m lib ((host, info) # rest) res calls =
        (Inl (Errorf ''secret for host %q has no tls.key'' [S host]), calls)"
    by simp
next
  fix certPEM keyPEM err
  assume "map_of (sec_Data secret) TLSCertKey = Some certPEM \<and>
        map_of (sec_Data secret) TLSPrivateKeyKey = Some keyPEM \<and>
        validateCertificate lib certPEM = Some err"
  with assms(1,2)
  show "ensureTLSLoop m lib ((host, info) # rest) res calls =
        (Inl (Errorf ''invalid certificate for host %q: %w'' [S host, W err]), calls)"
    by simp
next
  fix certPEM keyPEM primary chain fp certs c
  assume valid: "map_of (sec_Data secret) TLSCertKey = Some certPEM \<and>
        map_of (sec_Data secret) TLSPrivateKeyKey = Some keyPEM \<and>
        validateCertificate lib certPEM = None \<and>
        splitCerts certPEM = (primary, chain) \<and>
        fp = getPemFingerprint lib (bytesOf primary)"
    and listed: "CollectCertificates m sel ''custom'' = Inr certs \<and>
          find (\<lambda>c. cert_Sha1Fingerprint c = fp) certs = Some c"
  from valid have host:
    "ensureTLSLoop m lib ((host, info) # rest) res calls =
     (case ensureCertificateForSecret m fp (sec_UID secret) (bytesOf primary) keyPEM
             (bytesOf chain) of
        (answer, cs) \<Rightarrow>
          afterHost m lib host rest res (calls @ cs) (map_sum id cert_ID answer))"
    using ensureTLSLoop_secret_host [OF assms(1,2), of certPEM keyPEM lib primary chain m host
        rest res calls]
    by simp
  from listed show "ensureTLSLoop m lib ((host, info) # rest) res calls =
          afterHost m lib host rest res (calls @ [CallCollectCertificates sel ''custom''])
            (Inr (cert_ID c))"
    unfolding host assms(3)
    by (simp add: ensureCertificateForSecret_listed del: find.simps)
next
  fix certPEM keyPEM primary chain fp c0 others
  assume valid: "map_of (sec_Data secret) TLSCertKey = Some certPEM \<and>
        map_of (sec_Data secret) TLSPrivateKeyKey = Some keyPEM \<and>
        validateCertificate lib certPEM = None \<and>
        splitCerts certPEM = (primary, chain) \<and>
        fp = getPemFingerprint lib (bytesOf primary)"
    and listed: "CollectCertificates m sel ''custom'' = Inr (c0 # others) \<and>
          find (\<lambda>c. cert_Sha1Fingerprint c = fp) (c0 # others) = None \<and> cert_ID c0 \<noteq> []"
  from valid have host:
    "ensureTLSLoop m lib ((host, info) # rest) res calls =
     (case ensureCertificateForSecret m fp (sec_UID secret) (bytesOf primary) keyPEM
             (bytesOf chain) of
        (answer, cs) \<Rightarrow>
          afterHost m lib host rest res (calls @ cs) (map_sum id cert_ID answer))"
    using ensureTLSLoop_secret_host [OF assms(1,2), of certPEM keyPEM lib primary chain m host
        rest res calls]
    by simp
  from listed show "ensureTLSLoop m lib ((host, info) # rest) res calls =
          afterHost m lib host rest res
            (calls @
             [CallCollectCertificates sel ''custom'',
              CallUpdateCustom (cert_ID c0)
                (certUpdateInput (bytesOf primary) keyPEM (bytesOf chain))])
            (map_sum id custom_ID
               (UpdateCustom m (cert_ID c0)
                  (certUpdateInput (bytesOf primary) keyPEM (bytesOf chain))))"
    unfolding host assms(3)
    by (simp add: ensureCertificateForSecret_listed cert_ID_of_answer del: find.simps)
next
  fix certPEM keyPEM primary chain fp c0 others
  assume valid: "map_of (sec_Data secret) TLSCertKey = Some certPEM \<and>
        map_of (sec_Data secret) TLSPrivateKeyKey = Some keyPEM \<and>
        validateCertificate lib certPEM = None \<and>
        splitCerts certPEM = (primary, chain) \<and>
        fp = getPemFingerprint lib (bytesOf primary)"
    and listed: "CollectCertificates m sel ''custom'' = Inr (c0 # others) \<and>
          find (\<lambda>c. cert_Sha1Fingerprint c = fp) (c0 # others) = None \<and> cert_ID c0 = []"
  from valid have host:
    "ensureTLSLoop m lib ((host, info) # rest) res calls =
     (case ensureCertificateForSecret m fp (sec_UID secret) (bytesOf primary) keyPEM
             (bytesOf chain) of
        (answer, cs) \<Rightarrow>
          afterHost m lib host rest res (calls @ cs) (map_sum id cert_ID answer))"
    using ensureTLSLoop_secret_host [OF assms(1,2), of certPEM keyPEM lib primary chain m host
        rest res calls]
    by simp
  from listed show "ensureTLSLoop m lib ((host, info) # rest) res calls =
          afterHost m lib host rest res
            (calls @
             [CallCollectCertificates sel ''custom'',
              CallCreateCustom
                (certCreateInput (sec_UID secret) (bytesOf primary) keyPEM (bytesOf chain))])
            (map_sum id custom_ID
               (CreateCustom m
                  (certCreateInput (sec_UID secret) (bytesOf primary) keyPEM (bytesOf chain))))"
    unfolding host assms(3)
    by (simp add: ensureCertificateForSecret_listed cert_ID_of_answer del: find.simps)
next
  fix certPEM keyPEM primary chain fp
  assume valid: "map_of (sec_Data secret) TLSCertKey = Some certPEM \<and>
        map_of (sec_Data secret) TLSPrivateKeyKey = Some keyPEM \<and>
        validateCertificate lib certPEM = None \<and>
        splitCerts certPEM = (primary, chain) \<and>
        fp = getPemFingerprint lib (bytesOf primary)"
    and none: "CollectCertificates m sel ''custom'' = Inr [] \<or>
       (\<exists>err. CollectCertificates m sel ''custom'' = Inl err \<and> As_NotFoundError err)"
  from valid have host:
    "ensureTLSLoop m lib ((host, info) # rest) res calls =
     (case ensureCertificateForSecret m fp (sec_UID secret) (bytesOf primary) keyPEM
             (bytesOf chain) of
        (answer, cs) \<Rightarrow>
          afterHost m lib host rest res (calls @ cs) (map_sum id cert_ID answer))"
    using ensureTLSLoop_secret_host [OF assms(1,2), of certPEM keyPEM lib primary chain m host
        rest res calls]
    by simp
  from none show "ensureTLSLoop m lib ((host, info) # rest) res calls =
          afterHost m lib host rest res
            (calls @
             [CallCollectCertificates sel ''custom'',
              CallCreateCustom
                (certCreateInput (sec_UID secret) (bytesOf primary) keyPEM (bytesOf chain))])
            (map_sum id custom_ID
               (CreateCustom m
                  (certCreateInput (sec_UID secret) (bytesOf primary) keyPEM (bytesOf chain))))"
  proof
    assume "CollectCertificates m sel ''custom'' = Inr []"
    then show ?thesis
      unfolding host assms(3)
      by (simp add: ensureCertificateForSecret_listed cert_ID_of_answer)
  next
    assume "\<exists>err. CollectCertificates m sel ''custom'' = Inl err \<and> As_NotFoundError err"
    then obtain err where "CollectCertificates m sel ''custom'' = Inl err"
      and "As_NotFoundError err" by blast
    then show ?thesis
      unfolding host assms(3)
      by (simp add: ensureCertificateForSecret_list_error cert_ID_of_answer)
  qed
next
  fix certPEM keyPEM primary chain fp err
  assume valid: "map_of (sec_Data secret) TLSCertKey = Some certPEM \<and>
        map_of (sec_Data secret) TLSPrivateKeyKey = Some keyPEM \<and>
        validateCertificate lib certPEM = None \<and>
        splitCerts certPEM = (primary, chain) \<and>
        fp = getPemFingerprint lib (bytesOf primary)"
    and failed: "CollectCertificates m sel ''custom'' = Inl err \<and> \<not> As_NotFoundError err"
  from valid have host:
    "ensureTLSLoop m lib ((host, info) # rest) res calls =
     (case ensureCertificateForSecret m fp (sec_UID secret) (bytesOf primary) keyPEM
             (bytesOf chain) of
        (answer, cs) \<Rightarrow>
          afterHost m lib host rest res (calls @ cs) (map_sum id cert_ID answer))"
    using ensureTLSLoop_secret_host [OF assms(1,2), of certPEM keyPEM lib primary chain m host
        rest res calls]
    by simp
  from failed show "ensureTLSLoop m lib ((host, info) # rest) res calls =
          afterHost m lib host rest res (calls @ [CallCollectCertificates sel ''custom''])
            (Inl err)"
    unfolding host assms(3)
    by (simp add: ensureCertificateForSecret_list_error)
qed

theorem EnsureTLS_secret_host_cases_witness:
  "EnsureTLS (exampleCertService (Inr [exampleCert ''cert-a'' exampleFingerprint]))
     exampleCrypto [(''example.com'', secretHost exampleSecret)] =
     (Inr [(''example.com'', ''cert-a'')],
      [CallCollectCertificates ''k8s.srvrscloud.com/api-secret-id=uid-s'' ''custom'']) \<and>
   EnsureTLS (exampleCertService (Inr [exampleCert ''cert-a'' ''00ff'']))
     exampleCrypto [(''example.com'', secretHost exampleSecret)] =
     (Inr [(''example.com'', ''cert-a'')],
      [CallCollectCertificates ''k8s.srvrscloud.com/api-secret-id=uid-s'' ''custom'',
       CallUpdateCustom ''cert-a'' (certUpdateInput examplePrimary ''KEY'' [])]) \<and>
   EnsureTLS (exampleCertService (Inr []))
     exampleCrypto [(''example.com'', secretHost exampleSecret)] =
     (Inr [(''example.com'', ''cert-new'')],
      [CallCollectCertificates ''k8s.srvrscloud.com/api-secret-id=uid-s'' ''custom'',
       CallCreateCustom (certCreateInput ''uid-s'' examplePrimary ''KEY'' [])]) \<and>
   EnsureTLS (exampleCertService (Inr []))
     exampleCrypto
     [(''example.com'',
       secretHost (exampleSecret \<lparr> sec_Data := [(''tls.crt'', examplePrimary @ [CHR 0x0A])] \<rparr>))] =
     (Inl (Errorf ''secret for host %q has no tls.key'' [S ''example.com'']), []) \<and>
   EnsureTLS (exampleCertService (Inr [exampleCert ''cert-a'' exampleFingerprint]))
     exampleCrypto
     [(''static.example.com'', \<lparr> ti_ExternalID = ''ext-1'', ti_Secret = None \<rparr>),
      (''example.com'', secretHost exampleSecret)] =
     (Inr [(''static.example.com'', ''ext-1''), (''example.com'', ''cert-a'')],
      [CallGetCustom ''ext-1'',
       CallCollectCertificates ''k8s.srvrscloud.com/api-secret-id=uid-s'' ''custom''])"
proof -
  let ?sel = "''k8s.srvrscloud.com/api-secret-id=uid-s''"
  let ?nokey = "exampleSecret \<lparr> sec_Data := [(''tls.crt'', examplePrimary @ [CHR 0x0A])] \<rparr>"
  have pre: "ti_ExternalID (secretHost exampleSecret) = []"
    "ti_Secret (secretHost exampleSecret) = Some exampleSecret"
    "?sel = SECRET_LABEL_ID @ ''='' @ sec_UID exampleSecret"
    by (simp_all add: secretHost_def exampleSecret_def SECRET_LABEL_ID_def GW_DOMAIN_def)
  have pre': "ti_ExternalID (secretHost ?nokey) = []"
    "ti_Secret (secretHost ?nokey) = Some ?nokey"
    "?sel = SECRET_LABEL_ID @ ''='' @ sec_UID ?nokey"
    by (simp_all add: secretHost_def exampleSecret_def SECRET_LABEL_ID_def GW_DOMAIN_def)
  have valid: "map_of (sec_Data exampleSecret) TLSCertKey = Some (examplePrimary @ [CHR 0x0A]) \<and>
      map_of (sec_Data exampleSecret) TLSPrivateKeyKey = Some ''KEY'' \<and>
      validateCertificate exampleCrypto (examplePrimary @ [CHR 0x0A]) = None \<and>
      splitCerts (examplePrimary @ [CHR 0x0A]) = (Some examplePrimary, None) \<and>
      exampleFingerprint = getPemFingerprint exampleCrypto (bytesOf (Some examplePrimary))"
    by (simp add: exampleSecret_def TLSCertKey_def TLSPrivateKeyKey_def
        validateCertificate_example splitCerts_example getPemFingerprint_example bytesOf_def)
  have nokey: "map_of (sec_Data ?nokey) TLSCertKey = Some (examplePrimary @ [CHR 0x0A]) \<and>
      map_of (sec_Data ?nokey) TLSPrivateKeyKey = None"
    by (simp add: TLSCertKey_def TLSPrivateKeyKey_def)
  have sel: "\<And>x l t. CollectCertificates (exampleCertService x) l t = x"
    "\<And>x i u. UpdateCustom (exampleCertService x) i u =
       Inr \<lparr> custom_ID = i, custom_Name = ''gw-secret'',
             custom_Sha1Fingerprint = ''sha1:'' @ uci_PublicKey u, custom_Labels = [] \<rparr>"
    "\<And>x i. CreateCustom (exampleCertService x) i =
       Inr \<lparr> custom_ID = ''cert-new'', custom_Name = cci_Name i,
             custom_Sha1Fingerprint = ''sha1:'' @ cci_PublicKey i, custom_Labels = cci_Labels i \<rparr>"
    by (simp_all add: exampleCertService_def)
  note cases = EnsureTLS_secret_host_cases
    [where lib = exampleCrypto and host = "''example.com''" and rest = "[]" and res = "[]"
       and calls = "[]"]
  note found_a = cases
    [where m = "exampleCertService (Inr [exampleCert ''cert-a'' exampleFingerprint])", OF pre,
      THEN conjunct2, THEN conjunct2, THEN conjunct2,
      THEN spec, THEN spec, THEN spec, THEN spec, THEN spec, THEN mp, OF valid]
  note found_b = cases
    [where m = "exampleCertService (Inr [exampleCert ''cert-a'' ''00ff''])", OF pre,
      THEN conjunct2, THEN conjunct2, THEN conjunct2,
      THEN spec, THEN spec, THEN spec, THEN spec, THEN spec, THEN mp, OF valid]
  note found_c = cases
    [where m = "exampleCertService (Inr [])", OF pre,
      THEN conjunct2, THEN conjunct2, THEN conjunct2,
      THEN spec, THEN spec, THEN spec, THEN spec, THEN spec, THEN mp, OF valid]
  have a: "EnsureTLS (exampleCertService (Inr [exampleCert ''cert-a'' exampleFingerprint]))
     exampleCrypto [(''example.com'', secretHost exampleSecret)] =
     (Inr [(''example.com'', ''cert-a'')], [CallCollectCertificates ?sel ''custom''])"
    using found_a [THEN conjunct1, THEN spec, THEN spec, THEN mp,
        of "[exampleCert ''cert-a'' exampleFingerprint]" "exampleCert ''cert-a'' exampleFingerprint"]
    by (simp add: sel exampleCert_def EnsureTLS_def afterHost_def)
  have diff: "exampleFingerprint \<noteq> ''00ff''"
    by (simp add: exampleFingerprint_def)
  have b: "EnsureTLS (exampleCertService (Inr [exampleCert ''cert-a'' ''00ff'']))
     exampleCrypto [(''example.com'', secretHost exampleSecret)] =
     (Inr [(''example.com'', ''cert-a'')],
      [CallCollectCertificates ?sel ''custom'',
       CallUpdateCustom ''cert-a'' (certUpdateInput examplePrimary ''KEY'' [])])"
    using found_b [THEN conjunct2, THEN conjunct1, THEN spec, THEN spec, THEN mp,
        of "exampleCert ''cert-a'' ''00ff''" "[]"] diff
    by (simp add: sel exampleCert_def EnsureTLS_def afterHost_def bytesOf_def)
  have c: "EnsureTLS (exampleCertService (Inr []))
     exampleCrypto [(''example.com'', secretHost exampleSecret)] =
     (Inr [(''example.com'', ''cert-new'')],
      [CallCollectCertificates ?sel ''custom'',
       CallCreateCustom (certCreateInput ''uid-s'' examplePrimary ''KEY'' [])])"
    using found_c [THEN conjunct2, THEN conjunct2, THEN conjunct2, THEN conjunct1, THEN mp]
    by (simp add: sel EnsureTLS_def afterHost_def bytesOf_def exampleSecret_def)
  have d: "EnsureTLS (exampleCertService (Inr [])) exampleCrypto
     [(''example.com'', secretHost ?nokey)] =
     (Inl (Errorf ''secret for host %q has no tls.key'' [S ''example.com'']), [])"
    using cases [where m = "exampleCertService (Inr [])", OF pre',
        THEN conjunct2, THEN conjunct1, THEN spec, THEN mp, OF nokey]
    by (simp add: EnsureTLS_def)
  note second = EnsureTLS_secret_host_cases
    [where m = "exampleCertService (Inr [exampleCert ''cert-a'' exampleFingerprint])"
       and lib = exampleCrypto and host = "''example.com''" and rest = "[]"
       and res = "[(''static.example.com'', ''ext-1'')]" and calls = "[CallGetCustom ''ext-1'']",
     OF pre, THEN conjunct2, THEN conjunct2, THEN conjunct2,
     THEN spec, THEN spec, THEN spec, THEN spec, THEN spec, THEN mp, OF valid,
     THEN conjunct1, THEN spec, THEN spec, THEN mp,
     of "[exampleCert ''cert-a'' exampleFingerprint]" "exampleCert ''cert-a'' exampleFingerprint"]
  have first: "EnsureTLS (exampleCertService (Inr [exampleCert ''cert-a'' exampleFingerprint]))
     exampleCrypto
     [(''static.example.com'', \<lparr> ti_ExternalID = ''ext-1'', ti_Secret = None \<rparr>),
      (''example.com'', secretHost exampleSecret)] =
     ensureTLSLoop (exampleCertService (Inr [exampleCert ''cert-a'' exampleFingerprint]))
       exampleCrypto [(''example.com'', secretHost exampleSecret)]
       [(''static.example.com'', ''ext-1'')] [CallGetCustom ''ext-1'']"
    by (simp add: EnsureTLS_def getByID_def exampleCertService_def customToSSLCertificate_def)
  have e: "EnsureTLS (exampleCertService (Inr [exampleCert ''cert-a'' exampleFingerprint]))
     exampleCrypto
     [(''static.example.com'', \<lparr> ti_ExternalID = ''ext-1'', ti_Secret = None \<rparr>),
      (''example.com'', secretHost exampleSecret)] =
     (Inr [(''static.example.com'', ''ext-1''), (''example.com'', ''cert-a'')],
      [CallGetCustom ''ext-1'', CallCollectCertificates ?sel ''custom''])"
    unfolding first using second
    by (simp add: sel exampleCert_def afterHost_def)
  from a b c d e show ?thesis by blast
qed

text \<open>C7 as stated fails: the provider lists, for the secret's UID, a certificate whose
  fingerprint differs from the computed one and whose id is empty; the code calls create, not
  update.\<close>

theorem ensureCertificateForSecret_without_id_creates:
  "ensureCertificateForSecret (exampleCertService (Inr [exampleCert [] ''00ff'']))
     exampleFingerprint ''uid-s'' examplePrimary ''KEY'' [] =
   (Inr \<lparr> cert_ID = ''cert-new'', cert_Name = ''gw-secret-uid-s'',
          cert_Sha1Fingerprint = ''sha1:'' @ examplePrimary,
          cert_Labels = [(''k8s.srvrscloud.com/api-secret-id'', ''uid-s'')] \<rparr>,
    [CallCollectCertificates ''k8s.srvrscloud.com/api-secret-id=uid-s'' ''custom'',
     CallCreateCustom
       \<lparr> cci_Name = ''gw-secret-uid-s'', cci_PublicKey = examplePrimary, cci_PrivateKey = ''KEY'',
         cci_ChainKey = [],
         cci_Labels = [(''k8s.srvrscloud.com/api-secret-id'', ''uid-s'')] \<rparr>])"
  by (simp add: ensureCertificateForSecret_def findCertificate_def exampleCertService_def
      exampleCert_def exampleFingerprint_def createCertificateForSecret_def
      customToSSLCertificate_def chainKey_def SECRET_LABEL_ID_def GW_DOMAIN_def)

subsection \<open>Reconcile: TLS before load balancer\<close>

lemma tlsThenLB_index:
  "tlsThenLB ok acts \<Longrightarrow> i < length acts \<Longrightarrow> isEnsureLB (acts ! i) \<Longrightarrow>
   ok \<or> (\<exists>j<i. isEnsureTLSReturned (acts ! j))"
proof (induction acts arbitrary: ok i)
  case Nil
  then show ?case by simp
next
  case (Cons a rest)
  show ?case
  proof (cases i)
    case 0
    with Cons.prems show ?thesis by (simp split: if_splits)
  next
    case (Suc k)
    show ?thesis
    proof (cases "isEnsureTLSReturned a")
      case True
      then show ?thesis using Suc by auto
    next
      case False
      with Cons.prems Suc have "tlsThenLB ok rest" "k < length rest" "isEnsureLB (rest ! k)"
        by (auto split: if_splits)
      from Cons.IH [OF this] show ?thesis using Suc by auto
    qed
  qed
qed

lemma isEnsure_simps [simp]:
  "isEnsureLB (CallEnsureLB gwInfo certs res)"
  "\<not> isEnsureLB (CallEnsureTLS tlsInfo tres)"
  "\<not> isEnsureLB (CallDeleteLB sel dres)"
  "\<not> isEnsureLB (CallPatch gw)"
  "\<not> isEnsureLB (CallStatusPatch gw)"
  "\<not> isEnsureLB (RecorderEvent t rsn msg)"
  "isEnsureTLSReturned (CallEnsureTLS tlsInfo tres) = (\<exists>certs'. tres = Inr certs')"
  "\<not> isEnsureTLSReturned (CallEnsureLB gwInfo certs res)"
  "\<not> isEnsureTLSReturned (CallDeleteLB sel dres)"
  "\<not> isEnsureTLSReturned (CallPatch gw)"
  "\<not> isEnsureTLSReturned (CallStatusPatch gw)"
  "\<not> isEnsureTLSReturned (RecorderEvent t rsn msg)"
  "isEnsureTLSFailed (CallEnsureTLS tlsInfo tres) = (\<exists>err. tres = Inl err)"
  "\<not> isEnsureTLSFailed (CallEnsureLB gwInfo certs res)"
  "\<not> isEnsureTLSFailed (CallDeleteLB sel dres)"
  "\<not> isEnsureTLSFailed (CallPatch gw)"
  "\<not> isEnsureTLSFailed (CallStatusPatch gw)"
  "\<not> isEnsureTLSFailed (RecorderEvent t rsn msg)"
  by (simp_all add: isEnsureLB_def isEnsureTLSReturned_def isEnsureTLSFailed_def
      split: sum.splits)

lemma reconcileManaged_order: "tlsThenLB False (snd (reconcileManaged r gw))"
  by (simp add: reconcileManaged_def setGatewayStatusCondition_def Let_def
      split: sum.splits option.splits prod.splits)

lemma reconcileManaged_failed:
  "(\<exists>a \<in> set (snd (reconcileManaged r gw)). isEnsureTLSFailed a) \<longrightarrow>
   (\<forall>a \<in> set (snd (reconcileManaged r gw)). \<not> isEnsureLB a)"
  by (simp add: reconcileManaged_def setGatewayStatusCondition_def Let_def
      split: sum.splits option.splits prod.splits)

lemma reconcileManaged_orderD:
  "reconcileManaged r gw = (res, acts) \<Longrightarrow> tlsThenLB False acts"
  using reconcileManaged_order [of r gw] by simp

lemma reconcileManaged_failedD:
  "reconcileManaged r gw = (res, acts) \<Longrightarrow> a \<in> set acts \<Longrightarrow> isEnsureTLSFailed a \<Longrightarrow>
   b \<in> set acts \<Longrightarrow> \<not> isEnsureLB b"
  using reconcileManaged_failed [of r gw] by auto

lemma Reconcile_order: "tlsThenLB False (snd (Reconcile r req))"
  by (auto simp: Reconcile_def cleanup_def Let_def
      dest: reconcileManaged_orderD intro: reconcileManaged_order
      split: sum.splits option.splits prod.splits)

lemma Reconcile_failed:
  "a \<in> set (snd (Reconcile r req)) \<Longrightarrow> isEnsureTLSFailed a \<Longrightarrow>
   b \<in> set (snd (Reconcile r req)) \<Longrightarrow> \<not> isEnsureLB b"
  by (auto simp: Reconcile_def cleanup_def Let_def
      dest: reconcileManaged_failedD reconcileManaged_failedD [OF surjective_pairing]
      split: sum.splits option.splits prod.splits if_splits)

text \<open>C8: among the actions of one pass of \<open>Reconcile\<close>, every call to EnsureLB comes
  after a call to EnsureTLS that returned without error; and in a pass in which EnsureTLS
  returned an error there is no call to EnsureLB.\<close>

theorem Reconcile_TLS_before_LB:
  "(\<forall>i < length (snd (Reconcile r req)).
      isEnsureLB (snd (Reconcile r req) ! i) \<longrightarrow>
      (\<exists>j<i. isEnsureTLSReturned (snd (Reconcile r req) ! j))) \<and>
   ((\<exists>a \<in> set (snd (Reconcile r req)). isEnsureTLSFailed a) \<longrightarrow>
      (\<forall>b \<in> set (snd (Reconcile r req)). \<not> isEnsureLB b))"
  using tlsThenLB_index [OF Reconcile_order, of _ r req] Reconcile_failed [of _ r req]
  by blast

lemmas example_pass_defs =
  Reconcile_def reconcileManaged_def exampleReconciler_def exampleClient_def exampleGateway_def
  exampleListeners_def exampleNode_def isManagedGateway_def ContainsFinalizer_def
  AddFinalizer_def GW_FINALIZER_def GW_DOMAIN_def buildTLSInfo_def validateHTTPSListener_def
  HTTPSProtocolType_def TLSModeTerminate_def TLS_EXTERNAL_ID_KEY_def buildGatewayInfo_def
  getNodesIpList_def NodeExternalIP_def NodeInternalIP_def listenerInfo_def
  setGatewayStatusCondition_def LB_ACTIVE_STATUS_def asciiLower_def Let_def

theorem Reconcile_TLS_before_LB_witness:
  "(\<exists>i j. j < i \<and>
      i < length (snd (Reconcile (exampleReconciler (Inr [(''example.com'', ''ext-cert-123'')]))
                         (''infra'', ''gw''))) \<and>
      isEnsureLB (snd (Reconcile (exampleReconciler (Inr [(''example.com'', ''ext-cert-123'')]))
                         (''infra'', ''gw'')) ! i) \<and>
      isEnsureTLSReturned
        (snd (Reconcile (exampleReconciler (Inr [(''example.com'', ''ext-cert-123'')]))
                (''infra'', ''gw'')) ! j)) \<and>
   (\<exists>a \<in> set (snd (Reconcile (exampleReconciler (Inl (OtherError ''timeout'')))
                       (''infra'', ''gw''))). isEnsureTLSFailed a) \<and>
   filter isEnsureLB
     (snd (Reconcile (exampleReconciler (Inl (OtherError ''timeout''))) (''infra'', ''gw''))) = []"
proof -
  let ?ok = "snd (Reconcile (exampleReconciler (Inr [(''example.com'', ''ext-cert-123'')]))
                    (''infra'', ''gw''))"
  let ?failed = "snd (Reconcile (exampleReconciler (Inl (OtherError ''timeout'')))
                    (''infra'', ''gw''))"
  have "\<exists>a \<in> set ?ok. isEnsureLB a"
    by (simp add: example_pass_defs)
  then obtain i where i: "i < length ?ok" "isEnsureLB (?ok ! i)"
    by (auto simp: in_set_conv_nth)
  with Reconcile_TLS_before_LB
         [of "exampleReconciler (Inr [(''example.com'', ''ext-cert-123'')])" "(''infra'', ''gw'')"]
  obtain j where "j < i" "isEnsureTLSReturned (?ok ! j)"
    by blast
  with i have first: "\<exists>i j. j < i \<and> i < length ?ok \<and> isEnsureLB (?ok ! i) \<and>
      isEnsureTLSReturned (?ok ! j)"
    by blast
  have failed: "\<exists>a \<in> set ?failed. isEnsureTLSFailed a"
    by (simp add: example_pass_defs)
  with Reconcile_TLS_before_LB
         [of "exampleReconciler (Inl (OtherError ''timeout''))" "(''infra'', ''gw'')"]
  have "\<forall>b \<in> set ?failed. \<not> isEnsureLB b"
    by blast
  then have "filter isEnsureLB ?failed = []"
    by (simp add: filter_empty_conv)
  with first failed show ?thesis
    by blast
qed

subsection \<open>buildTLSInfo and the namespace of a certificate reference\<close>















subsection \<open>buildGatewayInfo: hostnames claimed by several routes\<close>

lemmas example_build_defs =
  buildGatewayInfo_def exampleCluster_def exampleClient_def exampleNode_def exampleGateway_def
  exampleListeners_def exampleRoute_def exampleWeb_def examplePath_def getNodesIpList_def
  NodeExternalIP_def NodeInternalIP_def listenerInfo_def routeStep_def hostnameStep_def
  ruleStep_def isRouteAttachedToGateway_def getNamespaceLabels_def isRouteNamespaceAllowed_def
  hostMatches_def Let_def

text \<open>C2: the claim is that two distinct attached routes declaring the same hostname make
  the build fail.  The code remembers, for a hostname, only the name of the route that
  claimed it, and compares names: two routes \<open>shop\<close> in the namespaces \<open>team-a\<close> and
  \<open>team-b\<close>, both attached to the Gateway and both declaring \<open>example.com\<close>, pass the
  check, and the build succeeds with one virtual host that carries the paths of both.  With
  different names (\<open>shop\<close> and \<open>store\<close>) the same two routes make the build fail, as
  claimed.\<close>

theorem buildGatewayInfo_same_name_other_namespace:
  "buildGatewayInfo
     (exampleCluster [exampleRoute ''team-a'' ''shop'' None, exampleRoute ''team-b'' ''shop'' None])
     exampleGateway =
   Inr \<lparr> gi_UID = ''uid-1'', gi_Name = ''gw'', gi_NS = ''infra'',
         gi_VHosts = [(''example.com'',
                       \<lparr> vh_Host = ''example.com'', vh_SSL = True, vh_Ports = [443],
                         vh_Paths = [examplePath ''team-a'', examplePath ''team-b''] \<rparr>)] \<rparr> \<and>
   buildGatewayInfo
     (exampleCluster [exampleRoute ''team-a'' ''shop'' None, exampleRoute ''team-b'' ''store'' None])
     exampleGateway =
   Inl (Errorf ''domain %q used in several HTTPRoute: %q and %q''
          [S ''example.com'', S ''shop'', S ''store''])"
  by (simp add: example_build_defs)

text \<open>C3: the claim is that a virtual host with SSL carries only ports of matched HTTPS
  listeners.  The two routes \<open>shop\<close> of \<open>team-a\<close> and \<open>team-b\<close> are not told apart
  by the uniqueness check; the first is bound to the HTTP listener, the second to the HTTPS
  listener.  The merge adds the HTTPS port to the ports of the virtual host and sets SSL,
  keeping port 80, which no HTTPS listener of the Gateway has.\<close>

theorem buildGatewayInfo_merge_mixes_protocols:
  "buildGatewayInfo
     (exampleCluster [exampleRoute ''team-a'' ''shop'' (Some ''http''),
                      exampleRoute ''team-b'' ''shop'' (Some ''https'')])
     exampleGateway =
   Inr \<lparr> gi_UID = ''uid-1'', gi_Name = ''gw'', gi_NS = ''infra'',
         gi_VHosts = [(''example.com'',
                       \<lparr> vh_Host = ''example.com'', vh_SSL = True, vh_Ports = [80, 443],
                         vh_Paths = [examplePath ''team-a'', examplePath ''team-b''] \<rparr>)] \<rparr> \<and>
   filter (\<lambda>l. l_Protocol l = ''HTTPS'' \<and> l_Port l = 80) (gw_Listeners exampleGateway) = []"
  by (simp add: example_build_defs)

end
